theory Spec2Isabelle
  imports Complex_Main "HOL-Library.AList"
begin

section \<open>Host-language values\<close>

text \<open>
  The garage manager is written in JavaScript.  The model keeps the parts of the
  language the vehicle classes and the garage functions depend on.

  \<^item> A string is a list of bytes (UTF-8).  \<open>trim\<close> strips the ASCII white space
    characters and \<open>toUpperCase\<close> maps the ASCII letters; other code points are left
    alone.
  \<^item> An optional string is \<open>None\<close> for \<open>undefined\<close>/\<open>null\<close>.  A value is falsy when it
    is \<open>None\<close> or the empty string, which is what \<open>!x\<close> and \<open>x || d\<close> test.
  \<^item> A date, or a text that denotes one, is the instant it stands for: milliseconds
    since the epoch.  \<open>None\<close> stands for \<open>null\<close>, the empty text, an unparseable text and
    an invalid \<open>Date\<close> alike; the code treats the four the same way wherever it reads a
    date.  \<open>toISOString\<close> followed by \<open>new Date\<close> gives the instant back, so the ISO
    text of a date is represented by the same instant.
  \<^item> Speeds and cargo weights are integers, costs are rationals.  A year is what
    \<open>parseInt\<close> returns, a number of the host language (see below).
  \<^item> Sounds, alerts, console output and DOM updates are not part of the state.
\<close>

type_synonym instante = int

definition espaco :: "char \<Rightarrow> bool" where
  "espaco c \<longleftrightarrow> c \<in> set [CHR 0x20, CHR 0x09, CHR 0x0A, CHR 0x0B, CHR 0x0C, CHR 0x0D]"

definition trim :: "string \<Rightarrow> string" where
  "trim s = rev (dropWhile espaco (rev (dropWhile espaco s)))"

definition maiuscula :: "char \<Rightarrow> char" where
  "maiuscula c =
     (let n = (of_char c :: nat)
      in if 97 \<le> n \<and> n \<le> 122 then char_of (n - 32) else c)"

definition toUpperCase :: "string \<Rightarrow> string" where
  "toUpperCase s = map maiuscula s"

definition falso :: "string option \<Rightarrow> bool" where
  \<comment> \<open>\<open>!x\<close> for an optional string\<close>
  "falso x \<longleftrightarrow> x = None \<or> x = Some []"

definition ou :: "string option \<Rightarrow> string \<Rightarrow> string" where
  \<comment> \<open>\<open>x || d\<close> for an optional string\<close>
  "ou x d = (case x of None \<Rightarrow> d | Some s \<Rightarrow> if s = [] then d else s)"

subsection \<open>Numbers\<close>

text \<open>
  A host-language number is an IEEE 754 double.  The only numbers \<open>parseInt\<close> returns are
  the doubles with an integral value, the two infinities and \<open>NaN\<close>: \<open>Num n\<close> is the
  double with the integral value \<open>n\<close>, \<open>Inf True\<close> is \<open>Infinity\<close>, \<open>Inf False\<close> is
  \<open>-Infinity\<close>, and \<open>NaN\<close> is the \<open>None\<close> of a \<open>numero option\<close>.

  \<open>para_double n\<close> is the double nearest to the non-negative integer \<open>n\<close>: an integer of
  at most 53 bits is a double; a longer one keeps its 53 leading bits, rounded to
  nearest, ties to even; a result of \<open>2 ^ 1024\<close> or more is no finite double (\<open>None\<close>).
  The integers that are doubles are the fixed points of \<open>para_double\<close>, and a \<open>Num n\<close> is
  a number of the host language when \<open>\<bar>n\<bar>\<close> is one of them (\<open>numero_valido\<close>).

  \<open>digito_inicial x\<close> is the first digit of the decimal text of the double \<open>x\<close>:
  \<open>Number::toString\<close> prints the shortest digit string that reads back as \<open>x\<close>, so the
  first \<open>k\<close> digits of \<open>x\<close>, or these plus one in the last place, for the least \<open>k\<close> for
  which one of the two rounds to \<open>x\<close>.
\<close>

datatype numero = Num int | Inf bool

function comprimento_bits :: "int \<Rightarrow> nat" where
  "comprimento_bits n = (if n \<le> 0 then 0 else Suc (comprimento_bits (n div 2)))"
  by pat_completeness auto
termination
  by (relation "measure nat") auto

declare comprimento_bits.simps [simp del]

function algarismos :: "int \<Rightarrow> nat" where
  "algarismos n = (if n < 10 then 1 else Suc (algarismos (n div 10)))"
  by pat_completeness auto
termination
  by (relation "measure nat") auto

declare algarismos.simps [simp del]

definition limite_double :: int where
  \<comment> \<open>every finite double is below it\<close>
  "limite_double = 2 ^ 1024"

definition para_double :: "int \<Rightarrow> int option" where
  "para_double n =
     (let b = comprimento_bits n
      in if b \<le> 53 then Some n
         else
           let e = b - 53;
               q = n div 2 ^ e;
               r = n mod 2 ^ e;
               metade = 2 ^ (e - 1);
               q' = (if metade < r \<or> (r = metade \<and> odd q) then q + 1 else q);
               x = q' * 2 ^ e
           in if limite_double \<le> x then None else Some x)"

definition numero_valido :: "numero \<Rightarrow> bool" where
  \<comment> \<open>the integer of a finite number is a double\<close>
  "numero_valido x = (case x of Num n \<Rightarrow> para_double \<bar>n\<bar> = Some \<bar>n\<bar> | Inf b \<Rightarrow> True)"

definition numero_de :: "bool \<Rightarrow> int \<Rightarrow> numero" where
  \<comment> \<open>the number value of a sign and a magnitude\<close>
  "numero_de negativo m =
     (case para_double m of
        None \<Rightarrow> Inf (\<not> negativo)
      | Some x \<Rightarrow> Num (if negativo then - x else x))"

definition digito_inicial :: "int \<Rightarrow> int" where
  "digito_inicial x =
     (let n = algarismos x
      in case List.find
                (\<lambda>k. para_double (x div 10 ^ (n - k) * 10 ^ (n - k)) = Some x \<or>
                     para_double ((x div 10 ^ (n - k) + 1) * 10 ^ (n - k)) = Some x)
                [1..<Suc n] of
           None \<Rightarrow> x div 10 ^ (n - 1)
         | Some k \<Rightarrow>
             let s = x div 10 ^ (n - k)
             in if para_double (s * 10 ^ (n - k)) = Some x then s div 10 ^ (k - 1)
                else if s + 1 = 10 ^ k then 1
                else (s + 1) div 10 ^ (k - 1))"

subsection \<open>\<open>parseInt\<close>\<close>

text \<open>
  \<open>parseInt\<close> converts its argument to a string and reads the longest prefix of digits,
  after white space, a sign and a \<open>0x\<close> prefix; its result is the number value of the
  integer read.  (For more than 20 significant decimal digits the language lets an
  implementation approximate the integer before rounding; the model rounds the exact
  integer, as the common engines do.)

  A finite number below \<open>10 ^ 21\<close> in magnitude prints as its decimal digits and reads back
  as itself.  From \<open>10 ^ 21\<close> on the text is in exponent form, such as \<open>1e+21\<close> or
  \<open>1.5e+21\<close>, and \<open>parseInt\<close> reads the digit before the point or the \<open>e\<close>.  \<open>Infinity\<close>
  prints as a word and reads as \<open>NaN\<close>, and so does \<open>undefined\<close>.
\<close>

datatype numero_ou_texto = Numero numero | Texto string | Indefinido

definition valor_digito :: "char \<Rightarrow> int option" where
  "valor_digito c =
     (let n = (of_char c :: int)
      in if 48 \<le> n \<and> n \<le> 57 then Some (n - 48)
         else if 97 \<le> n \<and> n \<le> 122 then Some (n - 87)
         else if 65 \<le> n \<and> n \<le> 90 then Some (n - 55)
         else None)"

definition digito_na_base :: "int \<Rightarrow> char \<Rightarrow> bool" where
  "digito_na_base b c = (case valor_digito c of None \<Rightarrow> False | Some d \<Rightarrow> d < b)"

definition valor_na_base :: "int \<Rightarrow> string \<Rightarrow> int" where
  "valor_na_base b ds =
     foldl (\<lambda>acc c. acc * b + (case valor_digito c of None \<Rightarrow> 0 | Some d \<Rightarrow> d)) 0 ds"

definition parseInt_texto :: "string \<Rightarrow> numero option" where
  \<comment> \<open>\<open>None\<close> is \<open>NaN\<close>\<close>
  "parseInt_texto s =
     (let s1 = dropWhile espaco s;
          negativo = (take 1 s1 = ''-'');
          s2 = (if take 1 s1 = ''-'' \<or> take 1 s1 = ''+'' then drop 1 s1 else s1);
          hexa = (take 2 s2 = ''0x'' \<or> take 2 s2 = ''0X'');
          b = (if hexa then 16 else 10);
          s3 = (if hexa then drop 2 s2 else s2);
          ds = takeWhile (digito_na_base b) s3
      in if ds = [] then None
         else Some (numero_de negativo (valor_na_base b ds)))"

definition parseInt_numero :: "numero \<Rightarrow> numero option" where
  \<comment> \<open>\<open>parseInt(x)\<close> for a number \<open>x\<close>: \<open>parseInt(String(x))\<close>\<close>
  "parseInt_numero x =
     (case x of
        Inf b \<Rightarrow> None
      | Num n \<Rightarrow>
          (case para_double \<bar>n\<bar> of
             None \<Rightarrow> None
           | Some a \<Rightarrow>
               if a < 10 ^ 21 then Some (Num (if n < 0 then - a else a))
               else Some (Num (if n < 0 then - digito_inicial a else digito_inicial a))))"

definition parseInt :: "numero_ou_texto \<Rightarrow> numero option" where
  "parseInt x =
     (case x of Numero n \<Rightarrow> parseInt_numero n | Texto s \<Rightarrow> parseInt_texto s | Indefinido \<Rightarrow> None)"

definition ou_nulo :: "numero option \<Rightarrow> numero option" where
  \<comment> \<open>\<open>n || null\<close>: \<open>NaN\<close> and \<open>0\<close> are falsy\<close>
  "ou_nulo x = (case x of None \<Rightarrow> None | Some n \<Rightarrow> if n = Num 0 then None else Some n)"

definition ou_zero :: "int option \<Rightarrow> int" where
  \<comment> \<open>\<open>n || 0\<close>\<close>
  "ou_zero x = (case x of None \<Rightarrow> 0 | Some n \<Rightarrow> n)"

definition ou_false :: "bool option \<Rightarrow> bool" where
  \<comment> \<open>\<open>b || false\<close>\<close>
  "ou_false x = (case x of None \<Rightarrow> False | Some b \<Rightarrow> b)"

section \<open>Maintenance records\<close>

text \<open>
  Modelled from the spec: the class \<open>Manutencao\<close> (its constructor, \<open>validar\<close> and
  \<open>toJSON\<close>) is not among the source files.  The spec (sections 3 and 4.1) gives it a
  date, a type, a cost that defaults to 0 when absent or invalid, and an optional
  description; the constructor stores the fields and never throws; a record is valid iff
  its date is a real instant and its type is non-empty after trimming; \<open>toJSON\<close> returns
  the ISO date, type, cost and description, or \<open>null\<close> for an invalid record.
\<close>

record manutencao =
  data :: "instante option"
  tipo :: string
  custo :: rat
  descricao :: "string option"

definition nova_Manutencao ::
  "instante option \<Rightarrow> string option \<Rightarrow> rat option \<Rightarrow> string option \<Rightarrow> manutencao" where
  "nova_Manutencao d t c ds =
     \<lparr> data = d,
       tipo = ou t [],
       custo = (case c of None \<Rightarrow> 0 | Some x \<Rightarrow> if 0 \<le> x then x else 0),
       descricao = ds \<rparr>"

definition validar :: "manutencao \<Rightarrow> bool" where
  "validar m \<longleftrightarrow> data m \<noteq> None \<and> trim (tipo m) \<noteq> []"

record manutencao_json =
  j_data :: "instante option"
  j_tipo :: "string option"
  j_custo :: "rat option"
  j_descricao :: "string option"

definition Manutencao_toJSON :: "manutencao \<Rightarrow> manutencao_json option" where
  "Manutencao_toJSON m =
     (if validar m
      then Some \<lparr> j_data = data m, j_tipo = Some (tipo m), j_custo = Some (custo m),
                  j_descricao = descricao m \<rparr>
      else None)"

text \<open>The argument of \<open>adicionarManutencao\<close> is any value; only an instance of the class
  can pass the \<open>instanceof\<close> test.\<close>

datatype valor = Instancia manutencao | OutroValor

section \<open>Vehicles\<close>

datatype classe = CarroBase | CarroEsportivo bool | Caminhao int int

text \<open>\<open>CarroEsportivo t\<close> carries \<open>turboAtivado\<close>; \<open>Caminhao cap carga\<close> carries
  \<open>capacidadeCarga\<close> and \<open>cargaAtual\<close>.\<close>

record veiculo =
  id_veiculo :: string
  modelo :: string
  cor :: string
  imagemSrc :: string
  placa :: string
  ano :: "numero option"
  dataVencimentoCNH :: "instante option"
  velocidade :: int
  ligado :: bool
  historicoManutencao :: "manutencao list"
  classe :: classe

record argumentos =
  a_id :: "string option"
  a_modelo :: "string option"
  a_cor :: "string option"
  a_imagemSrc :: "string option"
  a_placa :: "string option"
  a_ano :: numero_ou_texto
  a_dataVencimentoCNH :: "instante option"

datatype erro = CamposObrigatorios

definition Cor_Padrao :: string where
  "Cor_Padrao = ''Cor Padr'' @ [CHR 0xC3, CHR 0xA3] @ ''o''"

definition Modelo_Padrao :: string where
  "Modelo_Padrao = ''Modelo Padr'' @ [CHR 0xC3, CHR 0xA3] @ ''o''"

definition novo_CarroBase :: "argumentos \<Rightarrow> erro + veiculo" where
  "novo_CarroBase a =
     (if falso (a_id a) \<or> falso (a_modelo a) then Inl CamposObrigatorios
      else Inr \<lparr> id_veiculo = ou (a_id a) [],
                 modelo = trim (ou (a_modelo a) Modelo_Padrao),
                 cor = trim (ou (a_cor a) Cor_Padrao),
                 imagemSrc = ou (a_imagemSrc a) ''default_car.png'',
                 placa = toUpperCase (trim (ou (a_placa a) [])),
                 ano = ou_nulo (parseInt (a_ano a)),
                 dataVencimentoCNH = a_dataVencimentoCNH a,
                 velocidade = 0,
                 ligado = False,
                 historicoManutencao = [],
                 classe = CarroBase \<rparr>)"

text \<open>
  Modelled from the spec: the subclasses \<open>CarroEsportivo\<close> and \<open>Caminhao\<close> are not among
  the source files.  By the spec (section 3) a sporty car adds \<open>turboAtivado\<close>, initially
  false, and a truck adds \<open>capacidadeCarga\<close> (default 0) and \<open>cargaAtual\<close> (initially 0);
  construction fails only when id or model is missing (section 4.2).
\<close>

definition novo_CarroEsportivo :: "argumentos \<Rightarrow> erro + veiculo" where
  "novo_CarroEsportivo a =
     (case novo_CarroBase a of
        Inl e \<Rightarrow> Inl e
      | Inr v \<Rightarrow> Inr (v\<lparr>classe := CarroEsportivo False\<rparr>))"

definition novo_Caminhao :: "argumentos \<Rightarrow> int option \<Rightarrow> erro + veiculo" where
  "novo_Caminhao a cap =
     (case novo_CarroBase a of
        Inl e \<Rightarrow> Inl e
      | Inr v \<Rightarrow> Inr (v\<lparr>classe := Caminhao (ou_zero cap) 0\<rparr>))"

subsection \<open>Actions\<close>

definition ligar :: "veiculo \<Rightarrow> veiculo" where
  "ligar v = (if \<not> ligado v then v\<lparr>ligado := True\<rparr> else v)"

definition desligar :: "veiculo \<Rightarrow> veiculo" where
  "desligar v = (if ligado v then v\<lparr>ligado := False, velocidade := 0\<rparr> else v)"

definition acelerar_CarroBase :: "veiculo \<Rightarrow> veiculo" where
  "acelerar_CarroBase v =
     (if ligado v then v\<lparr>velocidade := min (velocidade v + 10) 200\<rparr> else v)"

text \<open>
  Modelled from the spec: the overrides of \<open>acelerar\<close> in \<open>CarroEsportivo\<close> and
  \<open>Caminhao\<close> are not among the source files.  By the spec (section 4.2) accelerating
  is only effective when running and increases the speed by a fixed step of 10, capped
  at the variant's maximum speed: 250 for the sporty car, 140 for the truck.  The other
  actions are those of \<open>CarroBase\<close>, which the subclasses inherit.
\<close>

definition acelerar_CarroEsportivo :: "veiculo \<Rightarrow> veiculo" where
  "acelerar_CarroEsportivo v =
     (if ligado v then v\<lparr>velocidade := min (velocidade v + 10) 250\<rparr> else v)"

definition acelerar_Caminhao :: "veiculo \<Rightarrow> veiculo" where
  "acelerar_Caminhao v =
     (if ligado v then v\<lparr>velocidade := min (velocidade v + 10) 140\<rparr> else v)"

definition acelerar :: "veiculo \<Rightarrow> veiculo" where
  \<comment> \<open>the polymorphic call \<open>v.acelerar()\<close>\<close>
  "acelerar v =
     (case classe v of
        CarroBase \<Rightarrow> acelerar_CarroBase v
      | CarroEsportivo t \<Rightarrow> acelerar_CarroEsportivo v
      | Caminhao cap carga \<Rightarrow> acelerar_Caminhao v)"

definition frear :: "veiculo \<Rightarrow> veiculo" where
  "frear v = (if 0 < velocidade v then v\<lparr>velocidade := max (velocidade v - 15) 0\<rparr> else v)"

definition maxVel :: "veiculo \<Rightarrow> int" where
  \<comment> \<open>the maximum of the speedometer in \<open>atualizarInformacoesUI\<close>\<close>
  "maxVel v =
     (case classe v of
        CarroEsportivo t \<Rightarrow> 250
      | Caminhao cap carga \<Rightarrow> 140
      | CarroBase \<Rightarrow> 200)"

datatype acao = Ligar | Desligar | Acelerar | Frear

fun executar :: "acao \<Rightarrow> veiculo \<Rightarrow> veiculo" where
  "executar Ligar v = ligar v"
| "executar Desligar v = desligar v"
| "executar Acelerar v = acelerar v"
| "executar Frear v = frear v"

fun executar_todas :: "acao list \<Rightarrow> veiculo \<Rightarrow> veiculo" where
  "executar_todas [] v = v"
| "executar_todas (a # as) v = executar_todas as (executar a v)"

definition construido :: "veiculo \<Rightarrow> bool" where
  \<comment> \<open>the state a constructor leaves: stopped and switched off\<close>
  "construido v \<longleftrightarrow> velocidade v = 0 \<and> \<not> ligado v"


section \<open>Serialisation\<close>

text \<open>
  \<open>toJSON\<close> returns a plain object.  Its type also has to hold what \<open>carregarGaragem\<close> may
  find in the storage, where any field can be missing: every field is optional, and the
  history is absent, a list, or some other value (on which \<open>.map\<close> throws).
\<close>

datatype hist_json = HistAusente | HistLista "manutencao_json list" | HistNaoLista

record veiculo_json =
  j_id :: "string option"
  j_modelo :: "string option"
  j_cor :: "string option"
  j_placa :: "string option"
  j_ano :: "numero option"
  j_dataVencimentoCNH :: "instante option"
  j_velocidade :: "int option"
  j_ligado :: "bool option"
  j_imagemSrc :: "string option"
  j_tipoVeiculo :: "string option"
  j_historicoManutencao :: hist_json
  j_turboAtivado :: "bool option"
  j_capacidadeCarga :: "int option"
  j_cargaAtual :: "int option"

definition toJSON :: "veiculo \<Rightarrow> veiculo_json" where
  "toJSON v =
     (let histSerializado =
            List.map_filter Manutencao_toJSON (filter validar (historicoManutencao v));
          tipoVeiculo =
            (case classe v of
               CarroEsportivo t \<Rightarrow> ''CarroEsportivo''
             | Caminhao cap carga \<Rightarrow> ''Caminhao''
             | CarroBase \<Rightarrow> ''CarroBase'')
      in \<lparr> j_id = Some (id_veiculo v),
           j_modelo = Some (modelo v),
           j_cor = Some (cor v),
           j_placa = Some (placa v),
           j_ano = ano v,
           j_dataVencimentoCNH = dataVencimentoCNH v,
           j_velocidade = Some (velocidade v),
           j_ligado = Some (ligado v),
           j_imagemSrc = Some (imagemSrc v),
           j_tipoVeiculo = Some tipoVeiculo,
           j_historicoManutencao = HistLista histSerializado,
           j_turboAtivado = (case classe v of CarroEsportivo t \<Rightarrow> Some t | _ \<Rightarrow> None),
           j_capacidadeCarga = (case classe v of Caminhao cap carga \<Rightarrow> Some cap | _ \<Rightarrow> None),
           j_cargaAtual = (case classe v of Caminhao cap carga \<Rightarrow> Some carga | _ \<Rightarrow> None) \<rparr>)"

section \<open>The garage and its storage\<close>

text \<open>
  The world is the global \<open>garagem\<close>, an object whose keys keep their order of insertion
  (an association list updated in place by \<open>AList.update\<close>), the text stored under
  \<open>GARAGEM_KEY\<close> in the local storage (\<open>item\<close>), and the list of the writes and removals
  the storage has carried out.  A vehicle object is addressed by its key in the garage:
  the garage is the only owner of the vehicles.

  \<open>JSON.stringify\<close>, \<open>JSON.parse\<close> and \<open>localStorage.setItem\<close> belong to the platform and are
  parameters (\<open>ambiente\<close>): the text of a list of entries, the entries of a text or
  \<open>None\<close> when parsing throws, and the exception a write of a text raises, if any.
\<close>

datatype excecao = QuotaExceededError | NS_ERROR_DOM_QUOTA_REACHED | OutraExcecao

datatype operacao = SetItem string | RemoveItem

record ambiente =
  JSON_stringify :: "(string \<times> veiculo_json) list \<Rightarrow> string"
  JSON_parse :: "string \<Rightarrow> (string \<times> veiculo_json) list option"
  setItem_excecao :: "string \<Rightarrow> excecao option"

record mundo =
  garagem :: "(string \<times> veiculo) list"
  item :: "string option"
  operacoes :: "operacao list"

definition texto_da_garagem :: "ambiente \<Rightarrow> (string \<times> veiculo) list \<Rightarrow> string" where
  \<comment> \<open>\<open>JSON.stringify(garagem)\<close>, which calls \<open>toJSON\<close> on every vehicle\<close>
  "texto_da_garagem amb g = JSON_stringify amb (map (\<lambda>(k, v). (k, toJSON v)) g)"

definition de_quota :: "excecao \<Rightarrow> bool" where
  \<comment> \<open>the test on \<open>e.name\<close> in \<open>salvarGaragem\<close>\<close>
  "de_quota e \<longleftrightarrow> e = QuotaExceededError \<or> e = NS_ERROR_DOM_QUOTA_REACHED"

text \<open>The two branches of the \<open>catch\<close> differ in the message shown; both return
  \<open>false\<close> and leave the garage and the storage as they are.\<close>

definition salvarGaragem :: "ambiente \<Rightarrow> mundo \<Rightarrow> bool \<times> mundo" where
  "salvarGaragem amb w =
     (let texto = texto_da_garagem amb (garagem w)
      in case setItem_excecao amb texto of
           None \<Rightarrow> (True, w\<lparr>item := Some texto, operacoes := operacoes w @ [SetItem texto]\<rparr>)
         | Some e \<Rightarrow> if de_quota e then (False, w) else (False, w))"

definition chave_data :: "manutencao \<Rightarrow> int" where
  \<comment> \<open>\<open>m.data?.getTime() || 0\<close>\<close>
  "chave_data m = (case data m of None \<Rightarrow> 0 | Some t \<Rightarrow> t)"

text \<open>\<open>Array.prototype.sort\<close> with the comparator \<open>(a, b) => key b - key a\<close> is a stable
  sort by descending key.\<close>

definition ordenar :: "manutencao list \<Rightarrow> manutencao list" where
  "ordenar hs = sort_key (\<lambda>m. - chave_data m) hs"

text \<open>\<open>adicionarManutencao amb k m\<close> is the call \<open>garagem[k]?.adicionarManutencao(m)\<close>:
  with no vehicle under \<open>k\<close> nothing is called.  The history is always an array here, so
  the \<open>Array.isArray\<close> guard has no branch.\<close>

definition adicionarManutencao :: "ambiente \<Rightarrow> string \<Rightarrow> valor \<Rightarrow> mundo \<Rightarrow> bool \<times> mundo" where
  "adicionarManutencao amb k m w =
     (case map_of (garagem w) k of
        None \<Rightarrow> (False, w)
      | Some this \<Rightarrow>
          (case m of
             OutroValor \<Rightarrow> (False, w)
           | Instancia r \<Rightarrow>
               if \<not> validar r then (False, w)
               else
                 let this' = this\<lparr>historicoManutencao :=
                               ordenar (historicoManutencao this @ [r])\<rparr>;
                     w1 = w\<lparr>garagem := AList.update k this' (garagem w)\<rparr>
                 in (True, snd (salvarGaragem amb w1))))"

definition historico_de :: "mundo \<Rightarrow> string \<Rightarrow> manutencao list option" where
  "historico_de w k = map_option historicoManutencao (map_of (garagem w) k)"

definition ordenado_desc :: "manutencao list \<Rightarrow> bool" where
  "ordenado_desc hs = sorted_wrt (\<lambda>a b. chave_data b \<le> chave_data a) hs"

subsection \<open>Loading\<close>

definition recriar_manutencao :: "manutencao_json \<Rightarrow> manutencao option" where
  "recriar_manutencao m =
     (if j_data m = None \<or> falso (j_tipo m) then None
      else Some (nova_Manutencao (j_data m) (j_tipo m) (j_custo m) (j_descricao m)))"

definition recriar_historico :: "manutencao_json list \<Rightarrow> manutencao list" where
  "recriar_historico ms = filter validar (List.map_filter recriar_manutencao ms)"

definition definir_turboAtivado :: "bool \<Rightarrow> veiculo \<Rightarrow> veiculo" where
  "definir_turboAtivado t v =
     (case classe v of CarroEsportivo t' \<Rightarrow> v\<lparr>classe := CarroEsportivo t\<rparr> | _ \<Rightarrow> v)"

definition definir_cargaAtual :: "int \<Rightarrow> veiculo \<Rightarrow> veiculo" where
  "definir_cargaAtual n v =
     (case classe v of Caminhao cap carga \<Rightarrow> v\<lparr>classe := Caminhao cap n\<rparr> | _ \<Rightarrow> v)"

definition carregar_entrada ::
  "string \<times> veiculo_json \<Rightarrow> (string \<times> veiculo) list \<Rightarrow> (string \<times> veiculo) list option" where
  \<comment> \<open>one turn of the loop of \<open>carregarGaragem\<close>; \<open>None\<close> when an exception leaves the loop\<close>
  "carregar_entrada e g =
     (case e of (k, d) \<Rightarrow>
        if falso (j_id d) \<or> falso (j_modelo d) \<or> falso (j_tipoVeiculo d) then Some g
        else
          (case j_historicoManutencao d of
             HistNaoLista \<Rightarrow> None
           | h \<Rightarrow>
               let histRecriado =
                     recriar_historico (case h of HistLista ms \<Rightarrow> ms | _ \<Rightarrow> []);
                   args = \<lparr> a_id = j_id d, a_modelo = j_modelo d, a_cor = j_cor d,
                            a_imagemSrc = j_imagemSrc d, a_placa = j_placa d,
                            a_ano = (case j_ano d of None \<Rightarrow> Indefinido | Some n \<Rightarrow> Numero n),
                            a_dataVencimentoCNH = j_dataVencimentoCNH d \<rparr>;
                   veiculoInstance =
                     (if j_tipoVeiculo d = Some ''CarroEsportivo''
                      then map_sum id (definir_turboAtivado (ou_false (j_turboAtivado d)))
                             (novo_CarroEsportivo args)
                      else if j_tipoVeiculo d = Some ''Caminhao''
                      then map_sum id (definir_cargaAtual (ou_zero (j_cargaAtual d)))
                             (novo_Caminhao args (Some (ou_zero (j_capacidadeCarga d))))
                      else novo_CarroBase args)
               in (case veiculoInstance of
                     Inl creationError \<Rightarrow> Some g
                   | Inr v \<Rightarrow>
                       Some (AList.update k
                               (v\<lparr>velocidade := ou_zero (j_velocidade d),
                                  ligado := ou_false (j_ligado d),
                                  historicoManutencao := histRecriado\<rparr>) g))))"

fun carregar_entradas ::
  "(string \<times> veiculo_json) list \<Rightarrow> (string \<times> veiculo) list \<Rightarrow> (string \<times> veiculo) list option" where
  "carregar_entradas [] g = Some g"
| "carregar_entradas (e # es) g =
     (case carregar_entrada e g of None \<Rightarrow> None | Some g' \<Rightarrow> carregar_entradas es g')"

definition Revisao_Motor :: string where
  "Revisao_Motor = ''Revis'' @ [CHR 0xC3, CHR 0xA3] @ ''o Motor''"

definition Fumaca_estranha :: string where
  "Fumaca_estranha = ''Fuma'' @ [CHR 0xC3, CHR 0xA7] @ ''a estranha''"

text \<open>The date literals of the default vehicles, as instants (UTC midnight):
  2024-12-31, 2025-06-01, 2023-01-10, 2023-11-15 and 2024-01-10.\<close>

definition inicializarVeiculosPadrao :: "ambiente \<Rightarrow> mundo \<Rightarrow> mundo" where
  "inicializarVeiculosPadrao amb w =
     (let w0 = w\<lparr>garagem := []\<rparr>
      in case (novo_CarroBase
                 \<lparr> a_id = Some ''carro1'', a_modelo = Some ''Fusca'', a_cor = Some ''Azul'',
                   a_imagemSrc = Some ''default_car.png'', a_placa = Some ''ABC1234'',
                   a_ano = Numero (Num 1975), a_dataVencimentoCNH = Some 1735603200000 \<rparr>,
               novo_CarroEsportivo
                 \<lparr> a_id = Some ''carro2'', a_modelo = Some ''Maverick'', a_cor = Some ''Laranja'',
                   a_imagemSrc = Some ''default_sport.png'', a_placa = Some ''DEF5678'',
                   a_ano = Numero (Num 1974), a_dataVencimentoCNH = Some 1748736000000 \<rparr>,
               novo_Caminhao
                 \<lparr> a_id = Some ''cam1'', a_modelo = Some ''Scania 113'', a_cor = Some ''Vermelho'',
                   a_imagemSrc = Some ''default_truck.png'', a_placa = Some ''GHI9012'',
                   a_ano = Numero (Num 1995), a_dataVencimentoCNH = Some 1673308800000 \<rparr>
                 (Some 20000)) of
           (Inr carro1, Inr carro2, Inr cam1) \<Rightarrow>
             let w1 = w0\<lparr>garagem :=
                        AList.update ''cam1'' cam1
                          (AList.update ''carro2'' carro2
                             (AList.update ''carro1'' carro1 (garagem w0)))\<rparr>;
                 w2 = snd (adicionarManutencao amb ''carro1''
                             (Instancia (nova_Manutencao (Some 1700006400000)
                                (Some ''Troca Pneu'') (Some 250) None)) w1);
                 w3 = snd (adicionarManutencao amb ''cam1''
                             (Instancia (nova_Manutencao (Some 1704844800000)
                                (Some Revisao_Motor) (Some 1200) (Some Fumaca_estranha))) w2)
             in snd (salvarGaragem amb w3)
         | _ \<Rightarrow> w0\<lparr>garagem := []\<rparr>)"

definition carregarGaragem :: "ambiente \<Rightarrow> mundo \<Rightarrow> mundo" where
  "carregarGaragem amb w =
     (let dataJSON = item w;
          w0 = w\<lparr>garagem := []\<rparr>
      in if falso dataJSON then inicializarVeiculosPadrao amb w0
         else
           (case (case JSON_parse amb (ou dataJSON []) of
                    None \<Rightarrow> None
                  | Some garagemData \<Rightarrow> carregar_entradas garagemData []) of
              None \<Rightarrow>
                inicializarVeiculosPadrao amb
                  (w0\<lparr>item := None, operacoes := operacoes w0 @ [RemoveItem], garagem := []\<rparr>)
            | Some g \<Rightarrow> w0\<lparr>garagem := g\<rparr>))"

section \<open>Handlers of the forms\<close>

text \<open>The handlers read their form from the page.  Here the form is an argument, the
  clock value \<open>Date.now()\<close> is an argument, and the content a file reader delivers is a
  field of the file.\<close>

definition digito :: "nat \<Rightarrow> char" where
  "digito d = char_of (48 + d)"

function decimal :: "nat \<Rightarrow> string" where
  "decimal n = (if n < 10 then [digito n] else decimal (n div 10) @ [digito (n mod 10)])"
  by pat_completeness auto
termination
  by (relation "measure id") auto

declare decimal.simps [simp del]

definition novo_id :: "nat \<Rightarrow> string" where
  \<comment> \<open>the id \<open>`v${Date.now()}`\<close>\<close>
  "novo_id agora = CHR ''v'' # decimal agora"

record formulario_adicionar =
  add_modelo :: string
  add_cor :: string
  add_placa :: string
  add_ano :: string
  add_tipo :: string
  add_capacidade_carga :: "int option option"
  add_cnh :: "instante option"

definition criar_do_formulario :: "string \<Rightarrow> formulario_adicionar \<Rightarrow> erro + veiculo" where
  \<comment> \<open>the construction inside the \<open>try\<close> of \<open>handleAdicionarVeiculo\<close>\<close>
  "criar_do_formulario nId form =
     (let md = trim (add_modelo form);
          cr = trim (add_cor form);
          plc = toUpperCase (trim (add_placa form));
          tp = add_tipo form;
          capCg = (if tp = ''Caminhao''
                   then (case add_capacidade_carga form of Some c \<Rightarrow> c | None \<Rightarrow> Some 0)
                   else Some 0);
          imgP = (if tp = ''CarroEsportivo'' then ''default_sport.png''
                  else if tp = ''Caminhao'' then ''default_truck.png''
                  else ''default_car.png'');
          args = \<lparr> a_id = Some nId, a_modelo = Some md, a_cor = Some cr,
                   a_imagemSrc = Some imgP, a_placa = Some plc, a_ano = Texto (add_ano form),
                   a_dataVencimentoCNH = add_cnh form \<rparr>
      in if tp = ''CarroEsportivo'' then novo_CarroEsportivo args
         else if tp = ''Caminhao'' then novo_Caminhao args capCg
         else novo_CarroBase args)"

definition handleAdicionarVeiculo ::
  "ambiente \<Rightarrow> nat \<Rightarrow> formulario_adicionar \<Rightarrow> mundo \<Rightarrow> mundo" where
  "handleAdicionarVeiculo amb agora form w =
     (if trim (add_modelo form) = [] \<or> add_tipo form = [] then w
      else
        let nId = novo_id agora
        in (case criar_do_formulario nId form of
              Inl e \<Rightarrow>
                if map_of (garagem w) nId \<noteq> None
                then w\<lparr>garagem := AList.delete nId (garagem w)\<rparr>
                else w
            | Inr nV \<Rightarrow>
                let w1 = w\<lparr>garagem := AList.update nId nV (garagem w)\<rparr>;
                    (salvou, w2) = salvarGaragem amb w1
                in if salvou then w2
                   else w2\<lparr>garagem := AList.delete nId (garagem w2)\<rparr>))"

record arquivo =
  tipo_mime :: string
  leitura :: "string option"

record formulario_edicao =
  edit_modelo :: string
  edit_cor :: string
  edit_placa :: string
  edit_ano :: string
  edit_cnh :: "instante option"
  edit_imagem :: "arquivo option"

definition aplicar_campos :: "formulario_edicao \<Rightarrow> veiculo \<Rightarrow> veiculo \<times> bool" where
  \<comment> \<open>the five conditional assignments; the flag is \<open>mudou\<close>\<close>
  "aplicar_campos form v =
     (let nMod = trim (edit_modelo form);
          nCor = trim (edit_cor form);
          nPla = toUpperCase (trim (edit_placa form));
          nAno = ou_nulo (parseInt_texto (edit_ano form));
          nCnhD = edit_cnh form;
          (v1, m1) = (if nMod \<noteq> [] \<and> modelo v \<noteq> nMod then (v\<lparr>modelo := nMod\<rparr>, True)
                      else (v, False));
          (v2, m2) = (if cor v1 \<noteq> nCor then (v1\<lparr>cor := nCor\<rparr>, True) else (v1, m1));
          (v3, m3) = (if placa v2 \<noteq> nPla then (v2\<lparr>placa := nPla\<rparr>, True) else (v2, m2));
          (v4, m4) = (if ano v3 \<noteq> nAno then (v3\<lparr>ano := nAno\<rparr>, True) else (v3, m3));
          (v5, m5) = (if dataVencimentoCNH v4 \<noteq> nCnhD
                      then (v4\<lparr>dataVencimentoCNH := nCnhD\<rparr>, True) else (v4, m4))
      in (v5, m5))"

definition reader_onload ::
  "ambiente \<Rightarrow> string \<Rightarrow> veiculo \<Rightarrow> bool \<Rightarrow> string \<Rightarrow> mundo \<Rightarrow> mundo" where
  \<comment> \<open>the callback of the file reader; \<open>v\<close> is the vehicle object the handler captured,
      stored under \<open>veiculoId\<close>\<close>
  "reader_onload amb veiculoId v mudou novaImagemBase64 w =
     (if imagemSrc v \<noteq> novaImagemBase64
      then
        let imagemAntiga = imagemSrc v;
            w1 = w\<lparr>garagem :=
                     AList.update veiculoId (v\<lparr>imagemSrc := novaImagemBase64\<rparr>) (garagem w)\<rparr>;
            (salvou, w2) = salvarGaragem amb w1
        in if salvou then w2
           else w2\<lparr>garagem :=
                     AList.update veiculoId
                       (v\<lparr>imagemSrc := novaImagemBase64, imagemSrc := imagemAntiga\<rparr>)
                       (garagem w2)\<rparr>
      else if mudou then snd (salvarGaragem amb w)
      else w)"

definition handleSalvarEdicaoVeiculo ::
  "ambiente \<Rightarrow> string option \<Rightarrow> formulario_edicao option \<Rightarrow> string \<Rightarrow> mundo \<Rightarrow> mundo" where
  "handleSalvarEdicaoVeiculo amb exibido formulario veiculoId w =
     (case map_of (garagem w) veiculoId of
        None \<Rightarrow> w
      | Some v \<Rightarrow>
          if exibido \<noteq> Some (id_veiculo v) then w
          else
            (case formulario of
               None \<Rightarrow> w
             | Some form \<Rightarrow>
                 let (v1, mudou) = aplicar_campos form v;
                     w1 = w\<lparr>garagem := AList.update veiculoId v1 (garagem w)\<rparr>;
                     imagem = (case edit_imagem form of
                                 None \<Rightarrow> None
                               | Some file \<Rightarrow>
                                   if take 6 (tipo_mime file) = ''image/'' then Some file
                                   else None)
                 in (case imagem of
                       Some file \<Rightarrow>
                         (case leitura file of
                            None \<Rightarrow> w1
                          | Some novaImagemBase64 \<Rightarrow>
                              reader_onload amb veiculoId v1 mudou novaImagemBase64 w1)
                     | None \<Rightarrow>
                         if mudou then snd (salvarGaragem amb w1) else w1)))"

section \<open>Licence alerts\<close>

text \<open>
  A licence date reaches the program as a date-only text: as the ISO literal of a default
  vehicle or of the add form, which \<open>new Date\<close> reads as midnight UTC, or from the edit
  form, which appends \<open>T00:00:00Z\<close>.  \<open>data_utc d\<close> is that instant for the day \<open>d\<close>, counted
  from 1970-01-01.

  \<open>verificarVencimentoCNH\<close> compares it with \<open>hj\<close>, today at midnight in local time:
  \<open>new Date()\<close> followed by \<open>setHours(0, 0, 0, 0)\<close>.  The clock value \<open>agora\<close> and the offset
  \<open>fuso\<close> of local time from UTC, in milliseconds and positive east of Greenwich, are
  arguments; \<open>dia_local\<close> is the local calendar day, counted like \<open>d\<close>.

  \<open>verificarVencimentoCNH\<close> returns the alerts in the order of the garage, or nothing when
  the page has no area for them; the order and the wording in which the page shows them
  are left out.
\<close>

definition data_utc :: "int \<Rightarrow> instante" where
  "data_utc d = d * 86400000"

definition dia_local :: "int \<Rightarrow> instante \<Rightarrow> int" where
  "dia_local fuso agora = (agora + fuso) div 86400000"

definition hoje_meia_noite :: "int \<Rightarrow> instante \<Rightarrow> instante" where
  \<comment> \<open>\<open>const hj = new Date(); hj.setHours(0, 0, 0, 0)\<close>\<close>
  "hoje_meia_noite fuso agora = agora - (agora + fuso) mod 86400000"

definition dias_restantes :: "instante \<Rightarrow> instante \<Rightarrow> int" where
  \<comment> \<open>\<open>Math.ceil((dtV.getTime() - hj.getTime()) / (1e3 * 60 * 60 * 24))\<close>\<close>
  "dias_restantes hj dtV = - ((hj - dtV) div 86400000)"

datatype alerta_cnh = Vencida string string instante | VenceEm string string int instante

definition alerta_cnh_de :: "instante \<Rightarrow> veiculo \<Rightarrow> alerta_cnh option" where
  "alerta_cnh_de hj v =
     (case dataVencimentoCNH v of
        None \<Rightarrow> None
      | Some dtV \<Rightarrow>
          let dias = dias_restantes hj dtV
          in if dias < 0 then Some (Vencida (modelo v) (ou (Some (placa v)) ''S/P'') dtV)
             else if dias \<le> 30
             then Some (VenceEm (modelo v) (ou (Some (placa v)) ''S/P'') dias dtV)
             else None)"

definition verificarVencimentoCNH ::
  "bool \<Rightarrow> int \<Rightarrow> instante \<Rightarrow> mundo \<Rightarrow> alerta_cnh list option" where
  "verificarVencimentoCNH area fuso agora w =
     (if \<not> area then None
      else
        let hj = hoje_meia_noite fuso agora
        in Some (List.map_filter (alerta_cnh_de hj) (map snd (garagem w))))"

section \<open>Predicates used in the statements\<close>

definition na_faixa :: "veiculo \<Rightarrow> bool" where
  "na_faixa v \<longleftrightarrow> 0 \<le> velocidade v \<and> velocidade v \<le> maxVel v"

definition parado_se_desligado :: "veiculo \<Rightarrow> bool" where
  "parado_se_desligado v \<longleftrightarrow> (\<not> ligado v \<longrightarrow> velocidade v = 0)"

definition escritas_falham :: "ambiente \<Rightarrow> bool" where
  "escritas_falham amb \<longleftrightarrow> (\<forall>t. setItem_excecao amb t \<noteq> None)"

definition forma_normal :: "veiculo \<Rightarrow> bool" where
  "forma_normal v \<longleftrightarrow>
     id_veiculo v \<noteq> [] \<and> trim (modelo v) = modelo v \<and> trim (cor v) = cor v \<and>
     imagemSrc v \<noteq> [] \<and> toUpperCase (trim (placa v)) = placa v \<and> ano v \<noteq> Some (Num 0) \<and>
     (case ano v of None \<Rightarrow> True | Some x \<Rightarrow> numero_valido x) \<and>
     list_all (\<lambda>m. validar m \<longrightarrow> 0 \<le> custo m) (historicoManutencao v)"

definition ano_decimal :: "veiculo \<Rightarrow> bool" where
  \<comment> \<open>the year is absent or a finite number that prints as its decimal digits: one
      below \<open>10 ^ 21\<close> in magnitude\<close>
  "ano_decimal v \<longleftrightarrow>
     (case ano v of
        None \<Rightarrow> True
      | Some (Num n) \<Rightarrow> \<bar>n\<bar> < 10 ^ 21
      | Some (Inf b) \<Rightarrow> False)"

section \<open>Example values\<close>

text \<open>Concrete vehicles, records, worlds and environments used to instantiate the
  theorems below.  \<open>ambiente_cheio\<close> is an environment whose storage is full: every write
  raises \<open>QuotaExceededError\<close>.\<close>

definition argumentos_fusca :: argumentos where
  "argumentos_fusca =
     \<lparr> a_id = Some ''carro1'', a_modelo = Some ''Fusca'', a_cor = Some ''Azul'',
       a_imagemSrc = Some ''default_car.png'', a_placa = Some ''ABC1234'',
       a_ano = Numero (Num 1975), a_dataVencimentoCNH = Some 1735603200000 \<rparr>"

definition fusca :: veiculo where
  "fusca =
     \<lparr> id_veiculo = ''carro1'', modelo = ''Fusca'', cor = ''Azul'',
       imagemSrc = ''default_car.png'', placa = ''ABC1234'', ano = Some (Num 1975),
       dataVencimentoCNH = Some 1735603200000, velocidade = 0, ligado = False,
       historicoManutencao = [], classe = CarroBase \<rparr>"

definition troca_pneu :: manutencao where
  "troca_pneu = \<lparr> data = Some 1700006400000, tipo = ''Troca Pneu'', custo = 250, descricao = None \<rparr>"

definition revisao_motor :: manutencao where
  "revisao_motor =
     \<lparr> data = Some 1704844800000, tipo = Revisao_Motor, custo = 1200,
       descricao = Some Fumaca_estranha \<rparr>"

definition maverick :: veiculo where
  "maverick =
     \<lparr> id_veiculo = ''carro2'', modelo = ''Maverick'', cor = ''Laranja'',
       imagemSrc = ''default_sport.png'', placa = ''DEF5678'', ano = Some (Num 1974),
       dataVencimentoCNH = Some 1748736000000, velocidade = 0, ligado = False,
       historicoManutencao = [], classe = CarroEsportivo False \<rparr>"

definition scania :: veiculo where
  "scania =
     \<lparr> id_veiculo = ''cam1'', modelo = ''Scania 113'', cor = ''Vermelho'',
       imagemSrc = ''default_truck.png'', placa = ''GHI9012'', ano = Some (Num 1995),
       dataVencimentoCNH = Some 1673308800000, velocidade = 0, ligado = False,
       historicoManutencao = [], classe = Caminhao 20000 0 \<rparr>"

definition frota_padrao :: "(string \<times> veiculo) list" where
  "frota_padrao =
     [(''carro1'', fusca\<lparr>historicoManutencao := [troca_pneu]\<rparr>),
      (''carro2'', maverick),
      (''cam1'', scania\<lparr>historicoManutencao := [revisao_motor]\<rparr>)]"

definition ambiente_cheio :: ambiente where
  "ambiente_cheio =
     \<lparr> JSON_stringify = (\<lambda>g. concat (map fst g)),
       JSON_parse = (\<lambda>t. None),
       setItem_excecao = (\<lambda>t. Some QuotaExceededError) \<rparr>"

definition mundo_texto :: "string \<Rightarrow> mundo" where
  "mundo_texto t = \<lparr> garagem = [], item = Some t, operacoes = [] \<rparr>"

definition mundo_fusca :: mundo where
  "mundo_fusca = \<lparr> garagem = [(''carro1'', fusca)], item = None, operacoes = [] \<rparr>"

definition revisao_em :: "instante \<Rightarrow> manutencao" where
  "revisao_em t = nova_Manutencao (Some t) (Some ''Revisao'') None None"

definition fusca_sem_cor :: veiculo where
  "fusca_sem_cor = fusca\<lparr>cor := []\<rparr>"

definition fusca_ano_grande :: veiculo where
  "fusca_ano_grande = fusca\<lparr>ano := Some (Num 1000000000000000000000)\<rparr>"

definition texto_ano_infinito :: string where
  \<comment> \<open>the digits of \<open>2 * 10 ^ 308\<close>, above every finite double\<close>
  "texto_ano_infinito = CHR ''2'' # replicate 308 (CHR ''0'')"

definition fusca_ano_infinito :: veiculo where
  "fusca_ano_infinito = fusca\<lparr>ano := Some (Inf True)\<rparr>"

definition sem_data :: manutencao where
  "sem_data = \<lparr> data = None, tipo = ''Freios'', custo = 80, descricao = None \<rparr>"

definition scania_com_historico :: veiculo where
  "scania_com_historico =
     scania\<lparr>historicoManutencao := [revisao_motor, sem_data], velocidade := 30, ligado := True,
            classe := Caminhao 20000 15000\<rparr>"

definition form_gol :: formulario_adicionar where
  "form_gol =
     \<lparr> add_modelo = ''Gol Quadrado'', add_cor = ''Branco'', add_placa = ''xyz9876'',
       add_ano = ''1992'', add_tipo = ''CarroBase'', add_capacidade_carga = None,
       add_cnh = None \<rparr>"

definition fusca_adicionado :: veiculo where
  "fusca_adicionado =
     \<lparr> id_veiculo = ''v1700000000000'', modelo = ''Fusca'', cor = ''Azul'',
       imagemSrc = ''default_car.png'', placa = ''ABC1234'', ano = Some (Num 1975),
       dataVencimentoCNH = None, velocidade = 0, ligado = False,
       historicoManutencao = [], classe = CarroBase \<rparr>"

definition gol_adicionado :: veiculo where
  "gol_adicionado =
     \<lparr> id_veiculo = ''v1700000000000'', modelo = ''Gol Quadrado'', cor = ''Branco'',
       imagemSrc = ''default_car.png'', placa = ''XYZ9876'', ano = Some (Num 1992),
       dataVencimentoCNH = None, velocidade = 0, ligado = False,
       historicoManutencao = [], classe = CarroBase \<rparr>"

text \<open>\<open>texto_salvo\<close> stands for the text an earlier session stored after adding the Fusca
  at the instant 1700000000000.  \<open>ambiente_lotado\<close> writes a garage as that text and parses
  it back, and its storage has filled up since: every write raises
  \<open>QuotaExceededError\<close>.\<close>

definition texto_salvo :: string where
  "texto_salvo = ''{v1700000000000: Fusca}''"

definition garagem_salva :: "(string \<times> veiculo_json) list" where
  "garagem_salva = [(''v1700000000000'', toJSON fusca_adicionado)]"

definition ambiente_lotado :: ambiente where
  "ambiente_lotado =
     \<lparr> JSON_stringify =
         (\<lambda>g. ''{'' @ concat (map (\<lambda>(k, d). k @ '': '' @ ou (j_modelo d) []) g) @ ''}''),
       JSON_parse = (\<lambda>t. if t = texto_salvo then Some garagem_salva else None),
       setItem_excecao = (\<lambda>t. Some QuotaExceededError) \<rparr>"

definition mundo_carregado :: mundo where
  "mundo_carregado =
     \<lparr> garagem = [(''v1700000000000'', fusca_adicionado)], item = Some texto_salvo,
       operacoes = [] \<rparr>"

definition foto :: arquivo where
  "foto = \<lparr> tipo_mime = ''image/png'', leitura = Some ''data:image/png;base64,AAAA'' \<rparr>"

definition form_edicao_fusca :: formulario_edicao where
  "form_edicao_fusca =
     \<lparr> edit_modelo = ''Fusca'', edit_cor = '' Verde '', edit_placa = ''ABC1234'',
       edit_ano = ''1975'', edit_cnh = Some 1735603200000, edit_imagem = Some foto \<rparr>"

section \<open>Strings\<close>

lemma espaco_codigo: "espaco c \<longleftrightarrow> (of_char c :: nat) \<in> {32, 9, 10, 11, 12, 13}"
proof -
  have k: "c = d \<longleftrightarrow> (of_char c :: nat) = n" if "(of_char d :: nat) = n" for d n
    using that by auto
  have "c = CHR 0x20 \<longleftrightarrow> (of_char c :: nat) = 32" "c = CHR 0x09 \<longleftrightarrow> (of_char c :: nat) = 9"
    "c = CHR 0x0A \<longleftrightarrow> (of_char c :: nat) = 10" "c = CHR 0x0B \<longleftrightarrow> (of_char c :: nat) = 11"
    "c = CHR 0x0C \<longleftrightarrow> (of_char c :: nat) = 12" "c = CHR 0x0D \<longleftrightarrow> (of_char c :: nat) = 13"
    by (rule k, simp)+
  then show ?thesis
    by (simp add: espaco_def)
qed

lemma codigo_maiuscula:
  "(of_char (maiuscula c) :: nat) =
     (if 97 \<le> (of_char c :: nat) \<and> (of_char c :: nat) \<le> 122 then of_char c - 32 else of_char c)"
proof -
  have "(of_char c :: nat) - 32 < 256"
    using nat_of_char_less_256 [of c] by arith
  then have "((of_char c :: nat) - 32) mod 256 = of_char c - 32"
    by (rule mod_less)
  then show ?thesis
    by (simp add: maiuscula_def Let_def)
qed

lemma espaco_maiuscula: "espaco (maiuscula c) = espaco c"
  by (auto simp: espaco_codigo codigo_maiuscula)

lemma maiuscula_idem: "maiuscula (maiuscula c) = maiuscula c"
proof -
  have "(of_char (maiuscula (maiuscula c)) :: nat) = of_char (maiuscula c)"
    by (auto simp: codigo_maiuscula)
  then show ?thesis by simp
qed

lemma dropWhile_prefixo:
  assumes "xs = [] \<or> \<not> P (hd xs)"
  shows "dropWhile P (rev (dropWhile P (rev xs))) = rev (dropWhile P (rev xs))"
proof (cases "rev (dropWhile P (rev xs))")
  case Nil
  then show ?thesis by (simp only: dropWhile.simps)
next
  case (Cons y ys)
  have "xs = rev (dropWhile P (rev xs)) @ rev (takeWhile P (rev xs))"
    by (metis rev_append rev_rev_ident takeWhile_dropWhile_id)
  with Cons have "hd xs = y" "xs \<noteq> []"
    by (metis append_Cons list.sel(1), metis append_is_Nil_conv list.distinct(1))
  with assms Cons show ?thesis by simp
qed

lemma dropWhile_trim: "dropWhile espaco (trim s) = trim s"
  unfolding trim_def
  by (rule dropWhile_prefixo) (metis hd_dropWhile)

lemma trim_idem: "trim (trim s) = trim s"
proof -
  have "trim (trim s) = rev (dropWhile espaco (rev (trim s)))"
    by (simp add: trim_def [of "trim s"] dropWhile_trim)
  also have "\<dots> = trim s"
    by (simp add: trim_def)
  finally show ?thesis .
qed

lemma trim_toUpperCase: "trim (toUpperCase s) = toUpperCase (trim s)"
proof -
  have c: "espaco \<circ> maiuscula = espaco"
    by (rule ext) (simp add: espaco_maiuscula)
  show ?thesis
    by (simp add: trim_def toUpperCase_def dropWhile_map rev_map c)
qed

lemma toUpperCase_idem: "toUpperCase (toUpperCase s) = toUpperCase s"
  by (simp add: toUpperCase_def maiuscula_idem)

lemma placa_normal: "toUpperCase (trim (toUpperCase (trim s))) = toUpperCase (trim s)"
  by (simp add: trim_toUpperCase trim_idem toUpperCase_idem)

lemma trim_simples [simp]:
  "trim ''Fusca'' = ''Fusca''" "trim ''Azul'' = ''Azul''" "trim ''ABC1234'' = ''ABC1234''"
  by (simp_all add: trim_def espaco_def)

lemma toUpperCase_placa [simp]: "toUpperCase ''ABC1234'' = ''ABC1234''"
  by (simp add: toUpperCase_def maiuscula_def)

section \<open>Numbers\<close>

lemma comprimento_bits_limite: "0 \<le> n \<Longrightarrow> n < 2 ^ k \<Longrightarrow> comprimento_bits n \<le> k"
proof (induction k arbitrary: n)
  case 0
  then have "n = 0" by simp
  then show ?case by (simp add: comprimento_bits.simps)
next
  case (Suc k)
  show ?case
  proof (cases "n \<le> 0")
    case True
    then show ?thesis by (simp add: comprimento_bits.simps)
  next
    case False
    from Suc.prems have "0 \<le> n div 2" "n div 2 < 2 ^ k" by simp_all
    then have "comprimento_bits (n div 2) \<le> k" by (rule Suc.IH)
    with False show ?thesis by (subst comprimento_bits.simps) simp
  qed
qed

lemma para_double_pequeno: "0 \<le> n \<Longrightarrow> n < 9007199254740992 \<Longrightarrow> para_double n = Some n"
  using comprimento_bits_limite [of n 53] by (simp add: para_double_def)

lemma comprimento_bits_exato:
  "2 ^ k \<le> n \<Longrightarrow> n < 2 ^ Suc k \<Longrightarrow> comprimento_bits n = Suc k"
proof (induction k arbitrary: n)
  case 0
  then have "n = 1" by simp
  then show ?case by (simp add: comprimento_bits.simps)
next
  case (Suc k)
  have "(0 :: int) < 2 ^ Suc k" by simp
  with Suc.prems(1) have p: "0 < n" by linarith
  from Suc.prems have "2 ^ k \<le> n div 2" "n div 2 < 2 ^ Suc k" by simp_all
  then have "comprimento_bits (n div 2) = Suc k" by (rule Suc.IH)
  with p show ?case by (subst comprimento_bits.simps) simp
qed

lemma comprimento_bits_faixa:
  "0 < n \<Longrightarrow> \<exists>k. comprimento_bits n = Suc k \<and> 2 ^ k \<le> n \<and> n < 2 ^ Suc k"
proof (induction n rule: comprimento_bits.induct)
  case (1 n)
  show ?case
  proof (cases "n div 2 \<le> 0")
    case True
    with 1(2) have "n = 1" by simp
    then show ?thesis by (simp add: comprimento_bits.simps)
  next
    case False
    with 1 obtain k where k: "comprimento_bits (n div 2) = Suc k" "2 ^ k \<le> n div 2"
      "n div 2 < 2 ^ Suc k"
      by auto
    define p :: int where "p = 2 ^ k"
    from k(2,3) have "2 * p \<le> n" "n < 4 * p" by (simp_all add: p_def)
    then have "2 ^ Suc k \<le> n" "n < 2 ^ Suc (Suc k)" by (simp_all add: p_def)
    moreover from 1(2) k(1) have "comprimento_bits n = Suc (Suc k)"
      by (subst comprimento_bits.simps) simp
    ultimately show ?thesis by blast
  qed
qed

lemma div_limites:
  fixes n d a b :: int
  assumes "0 < d" and "a * d \<le> n" and "n < b * d"
  shows "a \<le> n div d" and "n div d < b"
proof -
  have "a * d div d \<le> n div d" using assms(2,1) by (rule zdiv_mono1)
  with assms(1) show "a \<le> n div d" by simp
  show "n div d < b"
  proof (rule ccontr)
    assume "\<not> n div d < b"
    then have "b \<le> n div d" by simp
    then have "b * d \<le> n div d * d" using assms(1) by (simp add: mult_right_mono)
    moreover have "n div d * d + n mod d = n" by (rule div_mult_mod_eq)
    moreover have "0 \<le> n mod d" using assms(1) by simp
    ultimately show False using assms(3) by linarith
  qed
qed

lemma para_double_exato:
  assumes "2 ^ 52 \<le> m" and "m < 2 ^ 53" and "m * 2 ^ j < limite_double"
  shows "para_double (m * 2 ^ j) = Some (m * 2 ^ j)"
proof -
  have "2 ^ (52 + j) \<le> m * 2 ^ j" "m * 2 ^ j < 2 ^ Suc (52 + j)"
    using assms(1,2) by (simp_all add: power_add)
  then have b: "comprimento_bits (m * 2 ^ j) = 53 + j"
    using comprimento_bits_exato [of "52 + j" "m * 2 ^ j"] by simp
  show ?thesis
  proof (cases j)
    case 0
    with b show ?thesis by (simp add: para_double_def)
  next
    case (Suc i)
    with b assms(3) show ?thesis by (simp add: para_double_def Let_def)
  qed
qed

lemma para_double_forma:
  assumes "para_double n = Some x" and "0 \<le> n"
  shows "x = n \<or> (\<exists>m j. 2 ^ 52 \<le> m \<and> m < 2 ^ 53 \<and> x = m * 2 ^ j \<and> x < limite_double)"
proof (cases "comprimento_bits n \<le> 53")
  case True
  with assms(1) show ?thesis by (simp add: para_double_def)
next
  case False
  then have "0 < n" using assms(2) by (cases "n = 0") (simp_all add: comprimento_bits.simps)
  then obtain k where k: "comprimento_bits n = Suc k" "2 ^ k \<le> n" "n < 2 ^ Suc k"
    using comprimento_bits_faixa by blast
  define e where "e = k - 52"
  from False k(1) have ke: "k = 52 + e" "0 < e" by (simp_all add: e_def)
  define q where "q = n div 2 ^ e"
  have "2 ^ 52 * 2 ^ e \<le> n" "n < 2 ^ 53 * 2 ^ e"
    using k(2,3) unfolding ke(1) by (simp_all add: power_add)
  then have q: "2 ^ 52 \<le> q" "q < 2 ^ 53"
    unfolding q_def by (rule div_limites [rotated], simp)+
  define q' where "q' = (if 2 ^ (e - 1) < n mod 2 ^ e \<or> (n mod 2 ^ e = 2 ^ (e - 1) \<and> odd q)
                         then q + 1 else q)"
  have b: "\<not> comprimento_bits n \<le> 53" "comprimento_bits n - 53 = e"
    using False k(1) ke(1) by simp_all
  have "para_double n = (if limite_double \<le> q' * 2 ^ e then None else Some (q' * 2 ^ e))"
    unfolding para_double_def Let_def q'_def q_def using b by simp
  with assms(1) have x: "x = q' * 2 ^ e" "x < limite_double"
    by (simp_all split: if_splits)
  have q'': "q' = q \<or> q' = q + 1" by (simp add: q'_def)
  show ?thesis
  proof (cases "q' < 2 ^ 53")
    case True
    moreover from q(1) q'' have "2 ^ 52 \<le> q'" by auto
    ultimately have "2 ^ 52 \<le> q' \<and> q' < 2 ^ 53 \<and> x = q' * 2 ^ e \<and> x < limite_double"
      using x by simp
    then show ?thesis by (intro disjI2 exI [of _ q'] exI [of _ e])
  next
    case False
    with q(2) q'' have "q' = 2 ^ 53" by auto
    with x(1) have "x = 2 ^ 52 * 2 ^ Suc e" by simp
    with x(2) have "2 ^ 52 \<le> (2 ^ 52 :: int) \<and> (2 ^ 52 :: int) < 2 ^ 53 \<and>
        x = 2 ^ 52 * 2 ^ Suc e \<and> x < limite_double"
      by simp
    then show ?thesis by (intro disjI2 exI [of _ "2 ^ 52"] exI [of _ "Suc e"])
  qed
qed

lemma para_double_idem:
  assumes "para_double n = Some x" and "0 \<le> n"
  shows "para_double x = Some x"
proof -
  from para_double_forma [OF assms] show ?thesis
  proof
    assume "x = n"
    with assms(1) show ?thesis by simp
  next
    assume "\<exists>m j. 2 ^ 52 \<le> m \<and> m < 2 ^ 53 \<and> x = m * 2 ^ j \<and> x < limite_double"
    then obtain m j where "2 ^ 52 \<le> m" "m < 2 ^ 53" "x = m * 2 ^ j" "m * 2 ^ j < limite_double"
      by blast
    then show ?thesis using para_double_exato [of m j] by simp
  qed
qed

lemma para_double_nao_negativo:
  assumes "para_double n = Some x" and "0 \<le> n"
  shows "0 \<le> x"
proof -
  from para_double_forma [OF assms] show ?thesis
  proof
    assume "x = n"
    with assms(2) show ?thesis by simp
  next
    assume "\<exists>m j. 2 ^ 52 \<le> m \<and> m < 2 ^ 53 \<and> x = m * 2 ^ j \<and> x < limite_double"
    then obtain m j where "(2 :: int) ^ 52 \<le> m" "x = m * 2 ^ j" by blast
    then show ?thesis by simp
  qed
qed

lemma algarismos_positivo: "0 < algarismos x"
  by (subst algarismos.simps) simp

lemma algarismos_limite: "x < 10 ^ algarismos x"
proof (induction x rule: algarismos.induct)
  case (1 n)
  show ?case
  proof (cases "n < 10")
    case True
    then show ?thesis by (subst algarismos.simps) simp
  next
    case False
    with 1 have "n div 10 < 10 ^ algarismos (n div 10)" by simp
    then have "n < 10 * 10 ^ algarismos (n div 10)" by simp
    with False show ?thesis by (subst algarismos.simps) simp
  qed
qed

lemma primeiros_algarismos:
  fixes x :: int
  assumes "0 \<le> x" and "x < 10 ^ n" and "k \<le> n"
  shows "0 \<le> x div 10 ^ (n - k)" and "x div 10 ^ (n - k) < 10 ^ k"
proof -
  show "0 \<le> x div 10 ^ (n - k)" using assms(1) by (simp add: pos_imp_zdiv_nonneg_iff)
  have "(10 :: int) ^ n = 10 ^ k * 10 ^ (n - k)"
    using assms(3) by (simp flip: power_add)
  with assms(2) have "x < 10 ^ k * 10 ^ (n - k)" by simp
  then show "x div 10 ^ (n - k) < 10 ^ k"
    by (intro div_limites(2) [where a = 0]) (simp_all add: assms(1))
qed

lemma algarismo_de_cima:
  fixes s :: int
  assumes "0 \<le> s" and "s \<le> 10 ^ k" and "0 < k"
  shows "0 \<le> s div 10 ^ (k - 1)" and "s div 10 ^ (k - 1) \<le> 10"
proof -
  show "0 \<le> s div 10 ^ (k - 1)" using assms(1) by (simp add: pos_imp_zdiv_nonneg_iff)
  have "(10 :: int) ^ k = 10 * 10 ^ (k - 1)"
    using assms(3) by (cases k) simp_all
  moreover have "(0 :: int) < 10 ^ (k - 1)" by simp
  ultimately have "s < 11 * 10 ^ (k - 1)" using assms(2) by linarith
  then have "s div 10 ^ (k - 1) < 11"
    by (intro div_limites(2) [where a = 0]) (simp_all add: assms(1))
  then show "s div 10 ^ (k - 1) \<le> 10" by simp
qed

lemma find_Some_set: "List.find P xs = Some x \<Longrightarrow> x \<in> set xs"
  by (induction xs) (auto split: if_splits)

lemma digito_inicial_limites:
  assumes "0 \<le> x"
  shows "0 \<le> digito_inicial x \<and> digito_inicial x \<le> 10"
proof -
  let ?n = "algarismos x"
  let ?p = "\<lambda>k. para_double (x div 10 ^ (?n - k) * 10 ^ (?n - k)) = Some x \<or>
                 para_double ((x div 10 ^ (?n - k) + 1) * 10 ^ (?n - k)) = Some x"
  have n: "0 < ?n" "x < 10 ^ ?n"
    by (simp_all add: algarismos_positivo algarismos_limite)
  show ?thesis
  proof (cases "List.find ?p [1..<Suc ?n]")
    case None
    have "0 \<le> x div 10 ^ (?n - 1)" "x div 10 ^ (?n - 1) \<le> 10"
      using algarismo_de_cima [of x ?n] assms n by simp_all
    moreover have "digito_inicial x = x div 10 ^ (?n - 1)"
      unfolding digito_inicial_def Let_def None by simp
    ultimately show ?thesis by simp
  next
    case (Some k)
    then have "k \<in> set [1..<Suc ?n]" by (rule find_Some_set)
    then have "k \<in> {1..<Suc ?n}" by (simp only: set_upt)
    then have k: "0 < k" "k \<le> ?n" by simp_all
    let ?s = "x div 10 ^ (?n - k)"
    have s: "0 \<le> ?s" "?s < 10 ^ k"
      using primeiros_algarismos [OF assms n(2) k(2)] by simp_all
    have a: "0 \<le> ?s div 10 ^ (k - 1)" "?s div 10 ^ (k - 1) \<le> 10"
      using algarismo_de_cima [of ?s k] s k(1) by simp_all
    have b: "0 \<le> (?s + 1) div 10 ^ (k - 1)" "(?s + 1) div 10 ^ (k - 1) \<le> 10"
      using algarismo_de_cima [of "?s + 1" k] s k(1) by simp_all
    have "digito_inicial x =
            (if para_double (?s * 10 ^ (?n - k)) = Some x then ?s div 10 ^ (k - 1)
             else if ?s + 1 = 10 ^ k then 1
             else (?s + 1) div 10 ^ (k - 1))"
      unfolding digito_inicial_def Let_def Some by simp
    with a b show ?thesis by simp
  qed
qed

lemma valor_digito_nao_negativo: "valor_digito c = Some d \<Longrightarrow> 0 \<le> d"
  by (auto simp: valor_digito_def Let_def split: if_splits)

lemma foldl_nao_negativo:
  fixes acc b :: int
  assumes "0 \<le> b"
  shows "0 \<le> acc \<Longrightarrow>
         0 \<le> foldl (\<lambda>acc c. acc * b + (case valor_digito c of None \<Rightarrow> 0 | Some d \<Rightarrow> d)) acc ds"
proof (induction ds arbitrary: acc)
  case Nil
  then show ?case by simp
next
  case (Cons c ds)
  have "0 \<le> (case valor_digito c of None \<Rightarrow> 0 | Some d \<Rightarrow> d)"
    by (simp add: valor_digito_nao_negativo split: option.splits)
  with Cons.prems assms have "0 \<le> acc * b + (case valor_digito c of None \<Rightarrow> 0 | Some d \<Rightarrow> d)"
    by simp
  then show ?case by (simp add: Cons.IH)
qed

lemma valor_na_base_nao_negativo: "0 \<le> b \<Longrightarrow> 0 \<le> valor_na_base b ds"
  unfolding valor_na_base_def by (rule foldl_nao_negativo) simp_all

lemma numero_de_valido: "0 \<le> m \<Longrightarrow> numero_valido (numero_de negativo m)"
proof (cases "para_double m")
  case None
  then show ?thesis by (simp add: numero_de_def numero_valido_def)
next
  case (Some x)
  assume m: "0 \<le> m"
  from Some m have "0 \<le> x" by (rule para_double_nao_negativo)
  moreover from Some m have "para_double x = Some x" by (rule para_double_idem)
  ultimately show ?thesis using Some by (simp add: numero_de_def numero_valido_def)
qed

lemma parseInt_texto_valido: "parseInt_texto s = Some y \<Longrightarrow> numero_valido y"
  by (auto simp: parseInt_texto_def Let_def numero_de_valido valor_na_base_nao_negativo
      split: if_splits)

lemma parseInt_numero_valido:
  assumes "parseInt_numero x = Some y"
  shows "numero_valido y"
proof (cases x)
  case (Inf b)
  with assms show ?thesis by (simp add: parseInt_numero_def)
next
  case (Num n)
  with assms obtain a where a: "para_double \<bar>n\<bar> = Some a"
    by (auto simp: parseInt_numero_def split: option.splits)
  have p: "0 \<le> a" "para_double a = Some a"
    using a by (rule para_double_nao_negativo, simp) (rule para_double_idem [OF a], simp)
  show ?thesis
  proof (cases "a < 10 ^ 21")
    case True
    with assms Num a have "y = Num (if n < 0 then - a else a)"
      by (simp add: parseInt_numero_def)
    with p show ?thesis by (simp add: numero_valido_def)
  next
    case False
    with assms Num a have y: "y = Num (if n < 0 then - digito_inicial a else digito_inicial a)"
      by (simp add: parseInt_numero_def)
    from p(1) have "0 \<le> digito_inicial a" "digito_inicial a \<le> 10"
      using digito_inicial_limites by simp_all
    then have "para_double (digito_inicial a) = Some (digito_inicial a)"
      by (simp add: para_double_pequeno)
    with y \<open>0 \<le> digito_inicial a\<close> show ?thesis by (simp add: numero_valido_def)
  qed
qed

lemma parseInt_valido: "parseInt x = Some y \<Longrightarrow> numero_valido y"
  by (cases x) (simp_all add: parseInt_def parseInt_numero_valido parseInt_texto_valido)

lemma ou_nulo_valido: "ou_nulo (parseInt x) = Some y \<Longrightarrow> numero_valido y \<and> y \<noteq> Num 0"
  by (auto simp: ou_nulo_def parseInt_valido split: option.splits if_splits)

lemma parseInt_numero_pequeno [simp]:
  "\<bar>n\<bar> < 9007199254740992 \<Longrightarrow> parseInt_numero (Num n) = Some (Num n)"
  by (simp add: parseInt_numero_def para_double_pequeno)

lemma parseInt_numero_decimal:
  "\<bar>n\<bar> < 10 ^ 21 \<Longrightarrow> para_double \<bar>n\<bar> = Some \<bar>n\<bar> \<Longrightarrow> parseInt_numero (Num n) = Some (Num n)"
  by (simp add: parseInt_numero_def)

lemma ano_volta:
  assumes "ano_decimal v" and "ano v \<noteq> Some (Num 0)"
    and "case ano v of None \<Rightarrow> True | Some x \<Rightarrow> numero_valido x"
  shows "ou_nulo (parseInt (case ano v of None \<Rightarrow> Indefinido | Some n \<Rightarrow> Numero n)) = ano v"
proof (cases "ano v")
  case None
  then show ?thesis by (simp add: parseInt_def ou_nulo_def)
next
  case (Some x)
  show ?thesis
  proof (cases x)
    case (Num n)
    with Some assms(1,3) have "parseInt_numero (Num n) = Some (Num n)"
      by (simp add: ano_decimal_def numero_valido_def parseInt_numero_decimal)
    with Some Num assms(2) show ?thesis by (simp add: parseInt_def ou_nulo_def)
  next
    case (Inf b)
    with Some assms(1) show ?thesis by (simp add: ano_decimal_def)
  qed
qed

section \<open>The actions\<close>

lemma classe_executar: "classe (executar a v) = classe v"
  by (cases a)
    (simp_all add: ligar_def desligar_def acelerar_def acelerar_CarroBase_def
      acelerar_CarroEsportivo_def acelerar_Caminhao_def frear_def split: classe.splits)

lemma classe_executar_todas: "classe (executar_todas as v) = classe v"
  by (induction as arbitrary: v) (simp_all add: classe_executar)

lemma maxVel_executar_todas: "maxVel (executar_todas as v) = maxVel v"
  by (simp add: maxVel_def classe_executar_todas)

lemma na_faixa_executar: "na_faixa v \<Longrightarrow> na_faixa (executar a v)"
  by (cases a; cases "classe v")
    (simp_all add: na_faixa_def maxVel_def ligar_def desligar_def acelerar_def
      acelerar_CarroBase_def acelerar_CarroEsportivo_def acelerar_Caminhao_def frear_def)

lemma na_faixa_executar_todas: "na_faixa v \<Longrightarrow> na_faixa (executar_todas as v)"
  by (induction as arbitrary: v) (simp_all add: na_faixa_executar)

lemma novo_CarroBase_construido:
  "novo_CarroBase a = Inr v \<Longrightarrow> construido v \<and> classe v = CarroBase"
  by (auto simp: novo_CarroBase_def construido_def split: if_splits)

lemma novo_CarroEsportivo_construido:
  "novo_CarroEsportivo a = Inr v \<Longrightarrow> construido v \<and> classe v = CarroEsportivo False"
  by (auto simp: novo_CarroEsportivo_def construido_def split: sum.splits
      dest!: novo_CarroBase_construido)

lemma novo_Caminhao_construido:
  "novo_Caminhao a cap = Inr v \<Longrightarrow> construido v \<and> classe v = Caminhao (ou_zero cap) 0"
  by (auto simp: novo_Caminhao_def construido_def split: sum.splits
      dest!: novo_CarroBase_construido)

lemma construido_na_faixa: "construido v \<Longrightarrow> na_faixa v"
  by (cases "classe v") (simp_all add: construido_def na_faixa_def maxVel_def)

lemma novo_CarroBase_fusca: "novo_CarroBase argumentos_fusca = Inr fusca"
  by (simp add: novo_CarroBase_def argumentos_fusca_def fusca_def falso_def ou_def
      ou_nulo_def parseInt_def)

lemma novo_padrao:
  "novo_CarroEsportivo
     \<lparr> a_id = Some ''carro2'', a_modelo = Some ''Maverick'', a_cor = Some ''Laranja'',
       a_imagemSrc = Some ''default_sport.png'', a_placa = Some ''DEF5678'',
       a_ano = Numero (Num 1974), a_dataVencimentoCNH = Some 1748736000000 \<rparr> = Inr maverick"
  "novo_Caminhao
     \<lparr> a_id = Some ''cam1'', a_modelo = Some ''Scania 113'', a_cor = Some ''Vermelho'',
       a_imagemSrc = Some ''default_truck.png'', a_placa = Some ''GHI9012'',
       a_ano = Numero (Num 1995), a_dataVencimentoCNH = Some 1673308800000 \<rparr> (Some 20000) = Inr scania"
  by (simp_all add: novo_CarroEsportivo_def novo_Caminhao_def novo_CarroBase_def falso_def ou_def
      ou_nulo_def ou_zero_def parseInt_def maverick_def scania_def trim_def espaco_def
      toUpperCase_def maiuscula_def)

text \<open>
  C1.  Whatever the arguments of a successful construction and whatever finite sequence of
  \<open>ligar\<close>, \<open>desligar\<close>, \<open>acelerar\<close> and \<open>frear\<close> follows, the speed stays between 0 and the
  maximum speed of the variant: 200 for the base car, 250 for the sporty car, 140 for the
  truck.
\<close>

theorem velocidade_na_faixa:
  "(novo_CarroBase a = Inr v \<longrightarrow>
      0 \<le> velocidade (executar_todas acoes v) \<and> velocidade (executar_todas acoes v) \<le> 200) \<and>
   (novo_CarroEsportivo a = Inr v \<longrightarrow>
      0 \<le> velocidade (executar_todas acoes v) \<and> velocidade (executar_todas acoes v) \<le> 250) \<and>
   (novo_Caminhao a cap = Inr v \<longrightarrow>
      0 \<le> velocidade (executar_todas acoes v) \<and> velocidade (executar_todas acoes v) \<le> 140)"
proof -
  have faixa: "construido v \<Longrightarrow> na_faixa (executar_todas acoes v)"
    by (simp add: construido_na_faixa na_faixa_executar_todas)
  have "novo_CarroBase a = Inr v \<Longrightarrow>
      0 \<le> velocidade (executar_todas acoes v) \<and> velocidade (executar_todas acoes v) \<le> 200"
    using faixa novo_CarroBase_construido [of a v]
    by (simp add: na_faixa_def maxVel_def classe_executar_todas)
  moreover have "novo_CarroEsportivo a = Inr v \<Longrightarrow>
      0 \<le> velocidade (executar_todas acoes v) \<and> velocidade (executar_todas acoes v) \<le> 250"
    using faixa novo_CarroEsportivo_construido [of a v]
    by (simp add: na_faixa_def maxVel_def classe_executar_todas)
  moreover have "novo_Caminhao a cap = Inr v \<Longrightarrow>
      0 \<le> velocidade (executar_todas acoes v) \<and> velocidade (executar_todas acoes v) \<le> 140"
    using faixa novo_Caminhao_construido [of a cap v]
    by (simp add: na_faixa_def maxVel_def classe_executar_todas)
  ultimately show ?thesis by blast
qed

theorem velocidade_na_faixa_witness:
  "novo_CarroBase argumentos_fusca = Inr fusca \<and>
   velocidade (executar_todas (replicate 30 Ligar @ replicate 30 Acelerar) fusca) = 200 \<and>
   novo_CarroEsportivo
     \<lparr> a_id = Some ''carro2'', a_modelo = Some ''Maverick'', a_cor = Some ''Laranja'',
       a_imagemSrc = Some ''default_sport.png'', a_placa = Some ''DEF5678'',
       a_ano = Numero (Num 1974), a_dataVencimentoCNH = Some 1748736000000 \<rparr> = Inr maverick \<and>
   0 \<le> velocidade (executar_todas [Ligar, Acelerar, Acelerar, Frear, Frear] maverick) \<and>
   velocidade (executar_todas [Ligar, Acelerar, Acelerar, Frear, Frear] maverick) \<le> 250 \<and>
   novo_Caminhao
     \<lparr> a_id = Some ''cam1'', a_modelo = Some ''Scania 113'', a_cor = Some ''Vermelho'',
       a_imagemSrc = Some ''default_truck.png'', a_placa = Some ''GHI9012'',
       a_ano = Numero (Num 1995), a_dataVencimentoCNH = Some 1673308800000 \<rparr> (Some 20000)
     = Inr scania \<and>
   0 \<le> velocidade (executar_todas [Ligar, Acelerar, Desligar, Acelerar] scania) \<and>
   velocidade (executar_todas [Ligar, Acelerar, Desligar, Acelerar] scania) \<le> 140"
proof -
  have "velocidade (executar_todas (replicate 30 Ligar @ replicate 30 Acelerar) fusca) = 200"
    by code_simp
  then show ?thesis
    using velocidade_na_faixa [of argumentos_fusca fusca
        "replicate 30 Ligar @ replicate 30 Acelerar"]
      velocidade_na_faixa [of _ maverick "[Ligar, Acelerar, Acelerar, Frear, Frear]"]
      velocidade_na_faixa [of _ scania "[Ligar, Acelerar, Desligar, Acelerar]" "Some 20000"]
      novo_CarroBase_fusca novo_padrao
    by simp
qed

lemma parado_se_desligado_executar:
  "parado_se_desligado v \<Longrightarrow> parado_se_desligado (executar a v)"
  by (cases a; cases "classe v")
    (simp_all add: parado_se_desligado_def ligar_def desligar_def acelerar_def
      acelerar_CarroBase_def acelerar_CarroEsportivo_def acelerar_Caminhao_def frear_def)

lemma parado_se_desligado_executar_todas:
  "parado_se_desligado v \<Longrightarrow> parado_se_desligado (executar_todas as v)"
  by (induction as arbitrary: v) (simp_all add: parado_se_desligado_executar)

lemma construido_parado: "construido v \<Longrightarrow> parado_se_desligado v"
  by (simp add: construido_def parado_se_desligado_def)

text \<open>
  C10.  In every state reached from a freshly constructed vehicle by a sequence of
  \<open>ligar\<close>, \<open>desligar\<close>, \<open>acelerar\<close> and \<open>frear\<close>, a vehicle that is switched off has
  speed 0.
\<close>

theorem desligado_implica_parado:
  assumes "novo_CarroBase a = Inr v \<or> novo_CarroEsportivo a = Inr v \<or> novo_Caminhao a cap = Inr v"
    and "\<not> ligado (executar_todas acoes v)"
  shows "velocidade (executar_todas acoes v) = 0"
proof -
  from assms(1) have "construido v"
    using novo_CarroBase_construido novo_CarroEsportivo_construido novo_Caminhao_construido
    by blast
  then have "parado_se_desligado (executar_todas acoes v)"
    by (simp add: construido_parado parado_se_desligado_executar_todas)
  with assms(2) show ?thesis
    by (simp add: parado_se_desligado_def)
qed

lemma executar_fusca:
  "executar_todas [Ligar, Acelerar, Acelerar, Desligar, Frear, Acelerar] fusca = fusca"
  by (simp add: fusca_def ligar_def desligar_def acelerar_def acelerar_CarroBase_def frear_def)

theorem desligado_implica_parado_witness:
  "novo_CarroBase argumentos_fusca = Inr fusca \<and>
   \<not> ligado (executar_todas [Ligar, Acelerar, Acelerar, Desligar, Frear, Acelerar] fusca) \<and>
   velocidade (executar_todas [Ligar, Acelerar, Acelerar, Desligar, Frear, Acelerar] fusca) = 0"
proof -
  have c: "novo_CarroBase argumentos_fusca = Inr fusca \<or>
      novo_CarroEsportivo argumentos_fusca = Inr fusca \<or>
      novo_Caminhao argumentos_fusca None = Inr fusca"
    by (simp add: novo_CarroBase_fusca)
  have d: "\<not> ligado (executar_todas [Ligar, Acelerar, Acelerar, Desligar, Frear, Acelerar] fusca)"
    by (subst executar_fusca) (simp add: fusca_def)
  show ?thesis
    using desligado_implica_parado [OF c d] novo_CarroBase_fusca d by simp
qed

section \<open>Switching off\<close>

lemma desligar_parado: "ligado v \<or> velocidade v = 0 \<Longrightarrow> velocidade (desligar v) = 0"
  by (auto simp: desligar_def)

text \<open>
  C9 (amended).  \<open>desligar\<close> leaves the speed at 0 on every vehicle that is running or
  already stopped, and so in every state reached from a new vehicle by \<open>ligar\<close>,
  \<open>desligar\<close>, \<open>acelerar\<close> and \<open>frear\<close>.  On a vehicle that is switched off it changes
  nothing.
\<close>

theorem desligar_zera_velocidade:
  "(ligado v \<or> velocidade v = 0 \<longrightarrow> velocidade (desligar v) = 0) \<and>
   (construido v \<longrightarrow> velocidade (desligar (executar_todas acoes v)) = 0) \<and>
   (\<not> ligado v \<longrightarrow> desligar v = v)"
proof (intro conjI impI)
  assume "construido v"
  then have "parado_se_desligado (executar_todas acoes v)"
    by (simp add: construido_parado parado_se_desligado_executar_todas)
  then show "velocidade (desligar (executar_todas acoes v)) = 0"
    by (auto simp: parado_se_desligado_def desligar_def)
qed (auto simp: desligar_def)

lemma toJSON_fusca:
  "toJSON fusca =
     \<lparr> j_id = Some ''carro1'', j_modelo = Some ''Fusca'', j_cor = Some ''Azul'',
       j_placa = Some ''ABC1234'', j_ano = Some (Num 1975),
       j_dataVencimentoCNH = Some 1735603200000, j_velocidade = Some 0, j_ligado = Some False,
       j_imagemSrc = Some ''default_car.png'', j_tipoVeiculo = Some ''CarroBase'',
       j_historicoManutencao = HistLista [], j_turboAtivado = None, j_capacidadeCarga = None,
       j_cargaAtual = None \<rparr>"
  by (simp add: toJSON_def fusca_def)

text \<open>
  The claim C9 as stated, for every state, fails: \<open>carregarGaragem\<close> restores
  \<open>velocidade\<close> and \<open>ligado\<close> from the stored values without comparing them, and a
  vehicle restored switched off at speed 50 keeps that speed when \<open>desligar\<close> is called.
\<close>

theorem desligar_desligado_em_movimento:
  "carregar_entrada (''carro1'', (toJSON fusca)\<lparr>j_velocidade := Some 50\<rparr>) []
     = Some [(''carro1'', fusca\<lparr>velocidade := 50\<rparr>)] \<and>
   \<not> ligado (fusca\<lparr>velocidade := 50\<rparr>) \<and>
   velocidade (desligar (fusca\<lparr>velocidade := 50\<rparr>)) = 50"
  by (simp add: toJSON_fusca carregar_entrada_def falso_def recriar_historico_def
      novo_CarroBase_def ou_def ou_nulo_def parseInt_def ou_zero_def
      ou_false_def desligar_def)
    (simp add: fusca_def)

theorem desligar_zera_velocidade_witness:
  "(ligado (executar_todas [Ligar, Acelerar] fusca) \<or>
      velocidade (executar_todas [Ligar, Acelerar] fusca) = 0) \<and>
   construido fusca \<and>
   velocidade (executar_todas [Ligar, Acelerar] fusca) = 10 \<and>
   velocidade (desligar (executar_todas [Ligar, Acelerar] fusca)) = 0 \<and>
   \<not> ligado fusca \<and> desligar fusca = fusca"
proof -
  have a: "ligado (executar_todas [Ligar, Acelerar] fusca)"
    "velocidade (executar_todas [Ligar, Acelerar] fusca) = 10"
    by (simp_all add: fusca_def ligar_def acelerar_def acelerar_CarroBase_def)
  have b: "construido fusca" "\<not> ligado fusca"
    by (simp_all add: construido_def fusca_def)
  show ?thesis
    using desligar_zera_velocidade [of "executar_todas [Ligar, Acelerar] fusca" "[]"]
      desligar_zera_velocidade [of fusca "[Ligar, Acelerar]"] a b
    by simp
qed

section \<open>Saving\<close>

lemma garagem_salvarGaragem [simp]: "garagem (snd (salvarGaragem amb w)) = garagem w"
  by (simp add: salvarGaragem_def Let_def split: option.splits)

lemma salvarGaragem_falha:
  "setItem_excecao amb (texto_da_garagem amb (garagem w)) = Some e
   \<Longrightarrow> salvarGaragem amb w = (False, w)"
  by (simp add: salvarGaragem_def)

lemma salvarGaragem_escritas_falham: "escritas_falham amb \<Longrightarrow> salvarGaragem amb w = (False, w)"
  by (auto simp: salvarGaragem_def escritas_falham_def Let_def split: option.splits)

lemma operacoes_salvarGaragem:
  "\<exists>ops. operacoes (snd (salvarGaragem amb w)) = operacoes w @ ops"
  by (simp add: salvarGaragem_def Let_def split: option.splits)

section \<open>The maintenance history\<close>

lemma ordenado_desc_ordenar: "ordenado_desc (ordenar hs)"
  unfolding ordenado_desc_def ordenar_def
  using sorted_sort_key [of "\<lambda>m. - chave_data m" hs]
  by (simp add: sorted_map)

lemma adicionarManutencao_sucesso:
  assumes "map_of (garagem w) k = Some this" and "validar r"
  shows "fst (adicionarManutencao amb k (Instancia r) w)"
    and "garagem (snd (adicionarManutencao amb k (Instancia r) w)) =
         AList.update k
           (this\<lparr>historicoManutencao := ordenar (historicoManutencao this @ [r])\<rparr>)
           (garagem w)"
  using assms by (simp_all add: adicionarManutencao_def Let_def)

lemma adicionarManutencao_fst:
  "fst (adicionarManutencao amb k m w) \<longleftrightarrow>
     (\<exists>this r. map_of (garagem w) k = Some this \<and> m = Instancia r \<and> validar r)"
  by (auto simp: adicionarManutencao_def Let_def split: option.splits valor.splits)

lemma historico_apos_adicionar:
  assumes "map_of (garagem w) k = Some this" and "validar r"
  shows "map_of (garagem (snd (adicionarManutencao amb k (Instancia r) w))) k =
         Some (this\<lparr>historicoManutencao := ordenar (historicoManutencao this @ [r])\<rparr>)"
  by (simp add: adicionarManutencao_sucesso(2) [OF assms] AList.update_conv')

lemma validar_revisao_em: "validar (revisao_em t)"
  by (simp add: revisao_em_def nova_Manutencao_def validar_def ou_def trim_def espaco_def)

lemma data_revisao_em: "data (revisao_em t) = Some t"
  by (simp add: revisao_em_def nova_Manutencao_def)

lemma tipo_vazio_invalido: "\<not> validar (nova_Manutencao d (Some []) c ds)"
  by (simp add: nova_Manutencao_def validar_def ou_def trim_def)

lemma historico_padrao:
  "historicoManutencao fusca = []" "historicoManutencao maverick = []"
  "historicoManutencao scania = []"
  by (simp_all add: fusca_def maverick_def scania_def)

text \<open>
  C3.  For every vehicle and an argument that is not a maintenance record, or is a record
  that fails \<open>validar\<close> (an empty type, for one), \<open>adicionarManutencao\<close> returns \<open>false\<close>
  and changes nothing: the history of the vehicle, and the whole world, are as before.
\<close>

theorem manutencao_invalida_rejeitada:
  assumes "m = OutroValor \<or> (\<exists>r. m = Instancia r \<and> \<not> validar r)"
  shows "adicionarManutencao amb k m w = (False, w) \<and>
         historico_de (snd (adicionarManutencao amb k m w)) k = historico_de w k"
  using assms by (auto simp: adicionarManutencao_def split: option.splits)

theorem manutencao_invalida_rejeitada_witness:
  "\<not> validar (nova_Manutencao (Some 1700006400000) (Some []) None None) \<and>
   adicionarManutencao ambiente_cheio ''carro1''
     (Instancia (nova_Manutencao (Some 1700006400000) (Some []) None None)) mundo_fusca
     = (False, mundo_fusca) \<and>
   historico_de mundo_fusca ''carro1'' = Some []"
proof -
  let ?r = "nova_Manutencao (Some 1700006400000) (Some []) None None"
  have b: "Instancia ?r = OutroValor \<or> (\<exists>r. Instancia ?r = Instancia r \<and> \<not> validar r)"
    by (simp add: tipo_vazio_invalido)
  have "historico_de mundo_fusca ''carro1'' = Some []"
    by (simp add: historico_de_def mundo_fusca_def historico_padrao)
  then show ?thesis
    using manutencao_invalida_rejeitada [OF b, of ambiente_cheio "''carro1''" mundo_fusca]
    by (simp add: tipo_vazio_invalido)
qed

text \<open>
  C4.  After every successful \<open>adicionarManutencao\<close>, whatever the history was before,
  the history of the vehicle is sorted by date, latest first, a record without a valid
  date counting as the epoch (key 0).  Adding records dated 2030-01-01, 2020-01-01 and
  2025-01-01 in this order to a new vehicle gives the order 2030, 2025, 2020.
\<close>

theorem historico_ordenado:
  "(fst (adicionarManutencao amb k m w) \<longrightarrow>
      (\<exists>hs. historico_de (snd (adicionarManutencao amb k m w)) k = Some hs \<and> ordenado_desc hs)) \<and>
   (\<forall>r. data r = None \<longrightarrow> chave_data r = 0) \<and>
   map_option (map data)
     (historico_de
        (snd (adicionarManutencao amb ''carro1'' (Instancia (revisao_em 1735689600000))
          (snd (adicionarManutencao amb ''carro1'' (Instancia (revisao_em 1577836800000))
            (snd (adicionarManutencao amb ''carro1'' (Instancia (revisao_em 1893456000000))
              mundo_fusca))))))
        ''carro1'')
     = Some [Some 1893456000000, Some 1735689600000, Some 1577836800000]"
proof (intro conjI impI allI)
  assume "fst (adicionarManutencao amb k m w)"
  then obtain this r where
    h: "map_of (garagem w) k = Some this" "m = Instancia r" "validar r"
    by (auto simp: adicionarManutencao_fst)
  then show "\<exists>hs. historico_de (snd (adicionarManutencao amb k m w)) k = Some hs \<and> ordenado_desc hs"
    by (simp add: historico_de_def historico_apos_adicionar [OF h(1) h(3)] ordenado_desc_ordenar)
next
  fix r :: manutencao
  assume "data r = None"
  then show "chave_data r = 0"
    by (simp add: chave_data_def)
next
  let ?w1 = "snd (adicionarManutencao amb ''carro1'' (Instancia (revisao_em 1893456000000))
               mundo_fusca)"
  let ?w2 = "snd (adicionarManutencao amb ''carro1'' (Instancia (revisao_em 1577836800000)) ?w1)"
  let ?w3 = "snd (adicionarManutencao amb ''carro1'' (Instancia (revisao_em 1735689600000)) ?w2)"
  have 0: "map_of (garagem mundo_fusca) ''carro1'' = Some fusca"
    by (simp add: mundo_fusca_def)
  note 1 = historico_apos_adicionar [OF 0 validar_revisao_em]
  note 2 = historico_apos_adicionar [OF 1 validar_revisao_em]
  note 3 = historico_apos_adicionar [OF 2 validar_revisao_em]
  show "map_option (map data) (historico_de ?w3 ''carro1'')
     = Some [Some 1893456000000, Some 1735689600000, Some 1577836800000]"
    by (simp add: historico_de_def 3 historico_padrao ordenar_def chave_data_def
        data_revisao_em)
qed

theorem historico_ordenado_witness:
  "fst (adicionarManutencao ambiente_cheio ''carro1'' (Instancia (revisao_em 1893456000000))
         mundo_fusca) \<and>
   (\<exists>hs. historico_de
           (snd (adicionarManutencao ambiente_cheio ''carro1''
                   (Instancia (revisao_em 1893456000000)) mundo_fusca)) ''carro1'' = Some hs \<and>
         ordenado_desc hs)"
proof -
  have "fst (adicionarManutencao ambiente_cheio ''carro1'' (Instancia (revisao_em 1893456000000))
         mundo_fusca)"
    by (simp add: adicionarManutencao_fst mundo_fusca_def validar_revisao_em)
  then show ?thesis
    using historico_ordenado [of ambiente_cheio "''carro1''"
        "Instancia (revisao_em 1893456000000)" mundo_fusca]
    by blast
qed

section \<open>The default fleet and loading\<close>

lemma validar_padrao: "validar troca_pneu" "validar revisao_motor"
  by (simp_all add: validar_def troca_pneu_def revisao_motor_def Revisao_Motor_def trim_def
      espaco_def)

lemma nova_Manutencao_padrao:
  "nova_Manutencao (Some 1700006400000) (Some ''Troca Pneu'') (Some 250) None = troca_pneu"
  "nova_Manutencao (Some 1704844800000) (Some Revisao_Motor) (Some 1200) (Some Fumaca_estranha)
     = revisao_motor"
  by (simp_all add: nova_Manutencao_def troca_pneu_def revisao_motor_def ou_def Revisao_Motor_def)

lemma ordenar_um: "ordenar [m] = [m]"
  by (simp add: ordenar_def)

lemma garagem_inicializarVeiculosPadrao:
  "garagem (inicializarVeiculosPadrao amb w) = frota_padrao"
proof -
  let ?g1 = "[(''carro1'', fusca), (''carro2'', maverick), (''cam1'', scania)]"
  let ?w1 = "w\<lparr>garagem := ?g1\<rparr>"
  let ?w2 = "snd (adicionarManutencao amb ''carro1'' (Instancia troca_pneu) ?w1)"
  let ?w3 = "snd (adicionarManutencao amb ''cam1'' (Instancia revisao_motor) ?w2)"
  have g2: "garagem ?w2 =
      [(''carro1'', fusca\<lparr>historicoManutencao := [troca_pneu]\<rparr>), (''carro2'', maverick),
       (''cam1'', scania)]"
    by (subst adicionarManutencao_sucesso(2) [where this = fusca])
      (simp_all add: validar_padrao historico_padrao ordenar_um)
  have g3: "garagem ?w3 = frota_padrao"
    by (subst adicionarManutencao_sucesso(2) [where this = scania])
      (simp_all add: g2 validar_padrao historico_padrao ordenar_um frota_padrao_def)
  have "inicializarVeiculosPadrao amb w = snd (salvarGaragem amb ?w3)"
    unfolding inicializarVeiculosPadrao_def
    using novo_CarroBase_fusca [unfolded argumentos_fusca_def]
    by (simp add: novo_padrao nova_Manutencao_padrao Let_def)
  then show ?thesis
    by (simp add: g3)
qed

lemma operacoes_adicionarManutencao:
  "\<exists>ops. operacoes (snd (adicionarManutencao amb k m w)) = operacoes w @ ops"
proof (cases "fst (adicionarManutencao amb k m w)")
  case True
  then obtain this r where
    h: "map_of (garagem w) k = Some this" "m = Instancia r" "validar r"
    by (auto simp: adicionarManutencao_fst)
  then show ?thesis
    using operacoes_salvarGaragem
      [of amb "w\<lparr>garagem := AList.update k
          (this\<lparr>historicoManutencao := ordenar (historicoManutencao this @ [r])\<rparr>) (garagem w)\<rparr>"]
    by (simp add: adicionarManutencao_def Let_def)
next
  case False
  then have "adicionarManutencao amb k m w = (False, w)"
    by (auto simp: adicionarManutencao_def Let_def split: option.splits valor.splits if_splits)
  then show ?thesis by simp
qed

lemma operacoes_inicializarVeiculosPadrao:
  "\<exists>ops. operacoes (inicializarVeiculosPadrao amb w) = operacoes w @ ops"
proof -
  let ?g1 = "[(''carro1'', fusca), (''carro2'', maverick), (''cam1'', scania)]"
  let ?w1 = "w\<lparr>garagem := ?g1\<rparr>"
  let ?w2 = "snd (adicionarManutencao amb ''carro1'' (Instancia troca_pneu) ?w1)"
  let ?w3 = "snd (adicionarManutencao amb ''cam1'' (Instancia revisao_motor) ?w2)"
  have eq: "inicializarVeiculosPadrao amb w = snd (salvarGaragem amb ?w3)"
    unfolding inicializarVeiculosPadrao_def
    using novo_CarroBase_fusca [unfolded argumentos_fusca_def]
    by (simp add: novo_padrao nova_Manutencao_padrao Let_def)
  obtain o2 where o2: "operacoes ?w2 = operacoes ?w1 @ o2"
    using operacoes_adicionarManutencao by blast
  obtain o3 where o3: "operacoes ?w3 = operacoes ?w2 @ o3"
    using operacoes_adicionarManutencao by blast
  obtain o4 where o4: "operacoes (snd (salvarGaragem amb ?w3)) = operacoes ?w3 @ o4"
    using operacoes_salvarGaragem by blast
  show ?thesis
    by (simp only: eq o4 o3 o2) simp
qed

text \<open>
  C8 (amended).  When the stored text is non-empty and fails to parse, \<open>carregarGaragem\<close>
  first removes the storage key, and the garage it leaves in memory is the default fleet
  that \<open>inicializarVeiculosPadrao\<close> builds.  (An empty stored text is treated as absent:
  the default fleet is seeded without the key being removed.)
\<close>

theorem carga_corrompida:
  assumes "item w = Some texto" and "texto \<noteq> []" and "JSON_parse amb texto = None"
  shows "(\<exists>ops. operacoes (carregarGaragem amb w) = operacoes w @ RemoveItem # ops) \<and>
         garagem (carregarGaragem amb w) = garagem (inicializarVeiculosPadrao amb w) \<and>
         garagem (carregarGaragem amb w) = frota_padrao"
proof -
  let ?w' = "w\<lparr>item := None, operacoes := operacoes w @ [RemoveItem], garagem := []\<rparr>"
  have eq: "carregarGaragem amb w = inicializarVeiculosPadrao amb ?w'"
    using assms by (simp add: carregarGaragem_def falso_def ou_def Let_def)
  obtain ops where "operacoes (inicializarVeiculosPadrao amb ?w') = operacoes ?w' @ ops"
    using operacoes_inicializarVeiculosPadrao by blast
  then have "operacoes (carregarGaragem amb w) = operacoes w @ RemoveItem # ops"
    by (simp add: eq)
  then show ?thesis
    by (auto simp: eq garagem_inicializarVeiculosPadrao)
qed

lemma JSON_parse_cheio: "JSON_parse ambiente_cheio t = None"
  by (simp add: ambiente_cheio_def)

lemma escritas_falham_cheio: "escritas_falham ambiente_cheio"
  by (simp add: escritas_falham_def ambiente_cheio_def)

lemma adicionarManutencao_escritas_falham:
  assumes "escritas_falham amb"
  shows "item (snd (adicionarManutencao amb k m w)) = item w"
    and "operacoes (snd (adicionarManutencao amb k m w)) = operacoes w"
  using assms
  by (auto simp: adicionarManutencao_def salvarGaragem_escritas_falham Let_def
      split: option.splits valor.splits)

lemma inicializarVeiculosPadrao_eq:
  "inicializarVeiculosPadrao amb w =
     snd (salvarGaragem amb
       (snd (adicionarManutencao amb ''cam1'' (Instancia revisao_motor)
         (snd (adicionarManutencao amb ''carro1'' (Instancia troca_pneu)
           (w\<lparr>garagem := [(''carro1'', fusca), (''carro2'', maverick), (''cam1'', scania)]\<rparr>))))))"
  unfolding inicializarVeiculosPadrao_def
  using novo_CarroBase_fusca [unfolded argumentos_fusca_def]
  by (simp add: novo_padrao nova_Manutencao_padrao Let_def)

lemma inicializarVeiculosPadrao_escritas_falham:
  assumes "escritas_falham amb"
  shows "item (inicializarVeiculosPadrao amb w) = item w"
    and "operacoes (inicializarVeiculosPadrao amb w) = operacoes w"
  using assms
  by (simp_all add: inicializarVeiculosPadrao_eq salvarGaragem_escritas_falham
      adicionarManutencao_escritas_falham)

theorem carga_corrompida_witness:
  "item (mundo_texto ''{garagem:'') = Some ''{garagem:'' \<and> ''{garagem:'' \<noteq> [] \<and>
   JSON_parse ambiente_cheio ''{garagem:'' = None \<and>
   operacoes (carregarGaragem ambiente_cheio (mundo_texto ''{garagem:'')) = [RemoveItem] \<and>
   garagem (carregarGaragem ambiente_cheio (mundo_texto ''{garagem:'')) = frota_padrao"
proof -
  have h: "item (mundo_texto ''{garagem:'') = Some ''{garagem:''" "''{garagem:'' \<noteq> []"
    "JSON_parse ambiente_cheio ''{garagem:'' = None"
    by (simp_all add: mundo_texto_def JSON_parse_cheio)
  have "operacoes (carregarGaragem ambiente_cheio (mundo_texto ''{garagem:'')) = [RemoveItem]"
    by (simp add: carregarGaragem_def falso_def ou_def Let_def mundo_texto_def
        inicializarVeiculosPadrao_escritas_falham [OF escritas_falham_cheio] JSON_parse_cheio)
  then show ?thesis
    using carga_corrompida [OF h] h by blast
qed

text \<open>
  The claim C8 as stated fails for the empty text: \<open>JSON.parse("")\<close> throws, but
  \<open>carregarGaragem\<close> never reaches the parser, removes nothing, and with a full storage
  the empty text is still stored afterwards.
\<close>

theorem texto_vazio_nao_removido:
  "item (mundo_texto []) = Some [] \<and> JSON_parse ambiente_cheio [] = None \<and>
   operacoes (carregarGaragem ambiente_cheio (mundo_texto [])) = [] \<and>
   item (carregarGaragem ambiente_cheio (mundo_texto [])) = Some []"
  by (simp add: carregarGaragem_def falso_def Let_def mundo_texto_def
      inicializarVeiculosPadrao_escritas_falham [OF escritas_falham_cheio] JSON_parse_cheio)

section \<open>Saving and loading again\<close>

lemma recriar_manutencao_toJSON:
  assumes "validar m" and "0 \<le> custo m"
  shows "\<exists>j. Manutencao_toJSON m = Some j \<and> recriar_manutencao j = Some m"
proof -
  from assms(1) have n: "tipo m \<noteq> []"
    by (cases "tipo m") (simp_all add: validar_def trim_def)
  from assms(1) obtain t where t: "data m = Some t"
    by (auto simp: validar_def)
  have "nova_Manutencao (Some t) (Some (tipo m)) (Some (custo m)) (descricao m) = m"
    using assms(2) t n by (simp add: nova_Manutencao_def ou_def)
  with assms(1) t n show ?thesis
    by (simp add: Manutencao_toJSON_def recriar_manutencao_def falso_def)
qed

lemma recriar_historico_toJSON:
  "list_all (\<lambda>m. validar m \<longrightarrow> 0 \<le> custo m) hs \<Longrightarrow>
   recriar_historico (List.map_filter Manutencao_toJSON (filter validar hs)) = filter validar hs"
proof (induction hs)
  case Nil
  then show ?case by (simp add: recriar_historico_def)
next
  case (Cons m hs)
  then have ih: "filter validar
      (List.map_filter recriar_manutencao (List.map_filter Manutencao_toJSON (filter validar hs)))
      = filter validar hs"
    by (simp add: recriar_historico_def)
  show ?case
  proof (cases "validar m")
    case True
    with Cons.prems have "0 \<le> custo m" by simp
    with True obtain j where "Manutencao_toJSON m = Some j" "recriar_manutencao j = Some m"
      using recriar_manutencao_toJSON by blast
    with True ih show ?thesis
      by (simp add: recriar_historico_def)
  next
    case False
    with ih show ?thesis by (simp add: recriar_historico_def)
  qed
qed

text \<open>
  C2 (amended).  Take a vehicle in the form the constructors leave their fields in
  (\<open>forma_normal\<close>: non-empty id and image, model and colour trimmed, plate trimmed and
  in upper case, year absent or a non-zero number of the host language, no negative cost
  in a valid record) whose model and colour are not empty and whose year, when present,
  is finite and below \<open>10 ^ 21\<close> in magnitude (\<open>ano_decimal\<close>).  Loading the object \<open>toJSON\<close>
  makes of it, the way \<open>carregarGaragem\<close> does for each entry, stores under the same key a
  vehicle with the same class and the same fields, its history being the valid records
  of the original in their order.
\<close>

theorem ida_e_volta:
  assumes "forma_normal v" and "modelo v \<noteq> []" and "cor v \<noteq> []" and "ano_decimal v"
  shows "carregar_entrada (k, toJSON v) g =
         Some (AList.update k (v\<lparr>historicoManutencao := filter validar (historicoManutencao v)\<rparr>) g)"
proof -
  have h: "recriar_historico
      (List.map_filter Manutencao_toJSON (filter validar (historicoManutencao v)))
      = filter validar (historicoManutencao v)"
    using assms(1) by (simp add: forma_normal_def recriar_historico_toJSON)
  have a: "ou_nulo (parseInt (case ano v of None \<Rightarrow> Indefinido | Some n \<Rightarrow> Numero n)) = ano v"
    using assms(1,4) by (intro ano_volta) (simp_all add: forma_normal_def)
  obtain i mo co im pl an cn ve li hi cl where
    v: "v = \<lparr> id_veiculo = i, modelo = mo, cor = co, imagemSrc = im, placa = pl, ano = an,
              dataVencimentoCNH = cn, velocidade = ve, ligado = li, historicoManutencao = hi,
              classe = cl \<rparr>"
    by (cases v) simp
  show ?thesis
  proof (cases cl)
    case CarroBase
    with assms(1-3) h a show ?thesis
      unfolding v
      by (simp add: carregar_entrada_def toJSON_def forma_normal_def falso_def
          novo_CarroBase_def ou_def ou_zero_def ou_false_def)
  next
    case (CarroEsportivo t)
    with assms(1-3) h a show ?thesis
      unfolding v
      by (simp add: carregar_entrada_def toJSON_def forma_normal_def falso_def
          novo_CarroEsportivo_def novo_CarroBase_def definir_turboAtivado_def ou_def
          ou_zero_def ou_false_def)
  next
    case (Caminhao cap carga)
    with assms(1-3) h a show ?thesis
      unfolding v
      by (simp add: carregar_entrada_def toJSON_def forma_normal_def falso_def
          novo_Caminhao_def novo_CarroBase_def definir_cargaAtual_def ou_def
          ou_zero_def ou_false_def)
  qed
qed

lemma novo_CarroBase_forma_normal:
  assumes "novo_CarroBase a = Inr v"
  shows "forma_normal v"
proof -
  have i: "ou (a_id a) [] \<noteq> []" and "\<not> falso (a_id a)"
    using assms by (auto simp: novo_CarroBase_def falso_def ou_def split: if_splits option.splits)
  have im: "ou (a_imagemSrc a) ''default_car.png'' \<noteq> []"
    by (simp add: ou_def split: option.splits)
  have an: "ou_nulo (parseInt (a_ano a)) \<noteq> Some (Num 0)"
    by (simp add: ou_nulo_def split: option.splits)
  have av: "case ou_nulo (parseInt (a_ano a)) of None \<Rightarrow> True | Some x \<Rightarrow> numero_valido x"
    by (simp add: ou_nulo_valido split: option.splits)
  from assms have "v = \<lparr> id_veiculo = ou (a_id a) [],
                 modelo = trim (ou (a_modelo a) Modelo_Padrao),
                 cor = trim (ou (a_cor a) Cor_Padrao),
                 imagemSrc = ou (a_imagemSrc a) ''default_car.png'',
                 placa = toUpperCase (trim (ou (a_placa a) [])),
                 ano = ou_nulo (parseInt (a_ano a)),
                 dataVencimentoCNH = a_dataVencimentoCNH a,
                 velocidade = 0,
                 ligado = False,
                 historicoManutencao = [],
                 classe = CarroBase \<rparr>"
    by (simp add: novo_CarroBase_def split: if_splits)
  then show ?thesis
    using i im an av by (simp add: forma_normal_def trim_idem placa_normal)
qed

lemma forma_normal_classe: "forma_normal (v\<lparr>classe := c\<rparr>) = forma_normal v"
  by (simp add: forma_normal_def)

lemma construtores_forma_normal:
  "novo_CarroEsportivo a = Inr v \<Longrightarrow> forma_normal v"
  "novo_Caminhao a cap = Inr v \<Longrightarrow> forma_normal v"
  by (auto simp: novo_CarroEsportivo_def novo_Caminhao_def forma_normal_classe
      split: sum.splits dest: novo_CarroBase_forma_normal)

lemma novo_CarroBase_sem_cor:
  "novo_CarroBase (argumentos_fusca\<lparr>a_cor := Some ''  ''\<rparr>) = Inr fusca_sem_cor"
  by (simp add: novo_CarroBase_def argumentos_fusca_def fusca_sem_cor_def fusca_def falso_def
      ou_def ou_nulo_def parseInt_def)
    (simp add: trim_def espaco_def)

lemma parseInt_ano_grande:
  "parseInt_texto ''1000000000000000000000'' = Some (Num 1000000000000000000000)"
  "parseInt_numero (Num 1000000000000000000000) = Some (Num 1)"
  by code_simp+

lemma parseInt_ano_infinito: "parseInt_texto texto_ano_infinito = Some (Inf True)"
  by code_simp

lemma novo_CarroBase_ano_infinito:
  "novo_CarroBase (argumentos_fusca\<lparr>a_ano := Texto texto_ano_infinito\<rparr>)
     = Inr fusca_ano_infinito"
  by (simp add: novo_CarroBase_def argumentos_fusca_def fusca_ano_infinito_def fusca_def
      falso_def ou_def ou_nulo_def parseInt_def parseInt_ano_infinito)

lemma novo_CarroBase_ano_grande:
  "novo_CarroBase (argumentos_fusca\<lparr>a_ano := Texto ''1000000000000000000000''\<rparr>)
     = Inr fusca_ano_grande"
  by (simp add: novo_CarroBase_def argumentos_fusca_def fusca_ano_grande_def fusca_def falso_def
      ou_def ou_nulo_def parseInt_def parseInt_ano_grande)

text \<open>
  The claim C2 as stated, for every vehicle, fails in two ways.  The constructor turns
  the colour \<open>"  "\<close> into the empty string, \<open>toJSON\<close> stores it, and loading passes the
  empty string through \<open>cor || Cor_Padrao\<close> again, so the vehicle comes back with the
  default colour.  And the constructor turns the year text \<open>1000000000000000000000\<close> into
  the number \<open>10 ^ 21\<close>, \<open>toJSON\<close> stores it, and loading passes it through \<open>parseInt\<close>
  again, which reads the text \<open>1e+21\<close>, so the vehicle comes back with the year 1; its
  other fields are in the form of the constructors, with model and colour not empty.
  A year text of 309 digits gives the year \<open>Infinity\<close>, which \<open>parseInt\<close> reads as \<open>NaN\<close>:
  the vehicle comes back without a year.
\<close>

theorem cor_vazia_ano_grande_nao_voltam:
  "novo_CarroBase (argumentos_fusca\<lparr>a_cor := Some ''  ''\<rparr>) = Inr fusca_sem_cor \<and>
   carregar_entrada (''carro1'', toJSON fusca_sem_cor) []
     = Some [(''carro1'', fusca_sem_cor\<lparr>cor := Cor_Padrao\<rparr>)] \<and>
   cor fusca_sem_cor = [] \<and> Cor_Padrao \<noteq> [] \<and>
   novo_CarroBase (argumentos_fusca\<lparr>a_ano := Texto ''1000000000000000000000''\<rparr>)
     = Inr fusca_ano_grande \<and>
   forma_normal fusca_ano_grande \<and> modelo fusca_ano_grande = ''Fusca'' \<and>
   cor fusca_ano_grande = ''Azul'' \<and>
   ano fusca_ano_grande = Some (Num 1000000000000000000000) \<and>
   carregar_entrada (''carro1'', toJSON fusca_ano_grande) []
     = Some [(''carro1'', fusca_ano_grande\<lparr>ano := Some (Num 1)\<rparr>)] \<and>
   novo_CarroBase (argumentos_fusca\<lparr>a_ano := Texto texto_ano_infinito\<rparr>)
     = Inr fusca_ano_infinito \<and>
   ano fusca_ano_infinito = Some (Inf True) \<and>
   carregar_entrada (''carro1'', toJSON fusca_ano_infinito) []
     = Some [(''carro1'', fusca_ano_infinito\<lparr>ano := None\<rparr>)]"
proof -
  have c: "carregar_entrada (''carro1'', toJSON fusca_sem_cor) []
     = Some [(''carro1'', fusca_sem_cor\<lparr>cor := Cor_Padrao\<rparr>)]"
    by (simp add: fusca_sem_cor_def fusca_def toJSON_def carregar_entrada_def falso_def
        recriar_historico_def novo_CarroBase_def ou_def ou_nulo_def
        parseInt_def ou_zero_def ou_false_def)
      (simp add: Cor_Padrao_def trim_def espaco_def)
  have a: "carregar_entrada (''carro1'', toJSON fusca_ano_grande) []
     = Some [(''carro1'', fusca_ano_grande\<lparr>ano := Some (Num 1)\<rparr>)]"
    by (simp add: fusca_ano_grande_def fusca_def toJSON_def carregar_entrada_def falso_def
        recriar_historico_def novo_CarroBase_def ou_def ou_nulo_def
        parseInt_def parseInt_ano_grande ou_zero_def ou_false_def)
  have f: "forma_normal fusca_ano_grande"
    using novo_CarroBase_ano_grande by (rule novo_CarroBase_forma_normal)
  have m: "modelo fusca_ano_grande = ''Fusca''" "cor fusca_ano_grande = ''Azul''"
    "ano fusca_ano_grande = Some (Num 1000000000000000000000)"
    by (simp_all add: fusca_ano_grande_def fusca_def)
  have s: "cor fusca_sem_cor = []" "Cor_Padrao \<noteq> []"
    by (simp_all add: fusca_sem_cor_def Cor_Padrao_def)
  have i: "carregar_entrada (''carro1'', toJSON fusca_ano_infinito) []
     = Some [(''carro1'', fusca_ano_infinito\<lparr>ano := None\<rparr>)]"
    by (simp add: fusca_ano_infinito_def fusca_def toJSON_def carregar_entrada_def falso_def
        recriar_historico_def novo_CarroBase_def ou_def ou_nulo_def
        parseInt_def parseInt_numero_def ou_zero_def ou_false_def)
  have n: "ano fusca_ano_infinito = Some (Inf True)"
    by (simp add: fusca_ano_infinito_def)
  show ?thesis
    using novo_CarroBase_sem_cor c s novo_CarroBase_ano_grande f m a
      novo_CarroBase_ano_infinito n i
    by simp
qed

theorem ida_e_volta_witness:
  "forma_normal scania_com_historico \<and> modelo scania_com_historico \<noteq> [] \<and>
   cor scania_com_historico \<noteq> [] \<and> ano_decimal scania_com_historico \<and>
   carregar_entrada (''cam1'', toJSON scania_com_historico) []
     = Some [(''cam1'', scania_com_historico\<lparr>historicoManutencao := [revisao_motor]\<rparr>)]"
proof -
  have t: "trim ''Scania 113'' = ''Scania 113''" "trim ''Vermelho'' = ''Vermelho''"
    "trim ''GHI9012'' = ''GHI9012''" "toUpperCase ''GHI9012'' = ''GHI9012''"
    by (simp_all add: trim_def espaco_def toUpperCase_def maiuscula_def)
  have v: "validar revisao_motor" "\<not> validar sem_data"
    by (simp_all add: validar_padrao) (simp add: validar_def sem_data_def)
  have f: "forma_normal scania_com_historico"
    by (simp add: forma_normal_def scania_com_historico_def scania_def t v numero_valido_def
        para_double_pequeno)
      (simp add: revisao_motor_def)
  have m: "modelo scania_com_historico \<noteq> []" "cor scania_com_historico \<noteq> []"
    by (simp_all add: scania_com_historico_def scania_def)
  have a: "ano_decimal scania_com_historico"
    by (simp add: ano_decimal_def scania_com_historico_def scania_def)
  have h: "filter validar (historicoManutencao scania_com_historico) = [revisao_motor]"
    by (simp add: scania_com_historico_def v)
  show ?thesis
    using ida_e_volta [OF f m a, of "''cam1''" "[]"] f m a
    by (simp add: h)
qed

section \<open>Adding a vehicle\<close>

lemma algarismos_ascii:
  "char_of (48 :: nat) = CHR ''0''" "char_of (49 :: nat) = CHR ''1''"
  "char_of (50 :: nat) = CHR ''2''" "char_of (51 :: nat) = CHR ''3''"
  "char_of (52 :: nat) = CHR ''4''" "char_of (53 :: nat) = CHR ''5''"
  "char_of (54 :: nat) = CHR ''6''" "char_of (55 :: nat) = CHR ''7''"
  "char_of (56 :: nat) = CHR ''8''" "char_of (57 :: nat) = CHR ''9''"
  by code_simp+

lemma novo_id_exemplo: "novo_id 1700000000000 = ''v1700000000000''"
  by (simp add: novo_id_def decimal.simps digito_def algarismos_ascii)

lemma parseInt_texto_exemplos:
  "parseInt_texto ''1975'' = Some (Num 1975)" "parseInt_texto ''1992'' = Some (Num 1992)"
  by code_simp+

lemma criar_exemplo: "criar_do_formulario ''v1700000000000'' form_gol = Inr gol_adicionado"
  by code_simp

lemma handleAdicionarVeiculo_falha:
  assumes "trim (add_modelo form) \<noteq> []" and "add_tipo form \<noteq> []"
    and "criar_do_formulario (novo_id agora) form = Inr nV"
    and "setItem_excecao amb
           (texto_da_garagem amb (AList.update (novo_id agora) nV (garagem w))) = Some e"
  shows "handleAdicionarVeiculo amb agora form w =
         w\<lparr>garagem := AList.delete (novo_id agora) (garagem w)\<rparr>"
proof -
  let ?w1 = "w\<lparr>garagem := AList.update (novo_id agora) nV (garagem w)\<rparr>"
  have "salvarGaragem amb ?w1 = (False, ?w1)"
    using assms(4) by (simp add: salvarGaragem_falha)
  then show ?thesis
    using assms(1-3)
    by (simp add: handleAdicionarVeiculo_def Let_def AList.delete_update_same)
qed

text \<open>
  When the form is accepted, the vehicle is created and the save that follows the add
  fails, the generated id is no longer a key of the garage; and when that id was not a
  key before the add, the whole world, the garage included, is what it was before the
  add.
\<close>

lemma adicao_desfeita_com_id_novo:
  assumes "trim (add_modelo form) \<noteq> []" and "add_tipo form \<noteq> []"
    and "criar_do_formulario (novo_id agora) form = Inr nV"
    and "setItem_excecao amb
           (texto_da_garagem amb (AList.update (novo_id agora) nV (garagem w))) = Some e"
  shows "map_of (garagem (handleAdicionarVeiculo amb agora form w)) (novo_id agora) = None \<and>
         (novo_id agora \<notin> fst ` set (garagem w) \<longrightarrow>
            handleAdicionarVeiculo amb agora form w = w)"
  by (simp add: handleAdicionarVeiculo_falha [OF assms(1-4)] AList.delete_conv')

lemma carregar_fusca_adicionado:
  "carregar_entradas garagem_salva [] = Some [(''v1700000000000'', fusca_adicionado)]"
  by (simp add: garagem_salva_def fusca_adicionado_def toJSON_def carregar_entrada_def falso_def
      recriar_historico_def novo_CarroBase_def ou_def ou_nulo_def parseInt_def ou_zero_def
      ou_false_def)

text \<open>
  C5.  The code does not do what the claim requires when the generated id is already a
  key of the garage.  The id is \<open>v\<close> followed by the clock value, and the clock of the
  host is not monotonic.  The storage holds a garage with one vehicle, the Fusca added at
  the instant 1700000000000 under the key \<open>v1700000000000\<close>; \<open>carregarGaragem\<close> loads it.
  The clock, set back since, shows 1700000000000 again when the form is submitted for a
  Gol, and the storage is full.  The add overwrites the Fusca, the save raises
  \<open>QuotaExceededError\<close>, and the rollback deletes the key: the garage that held the Fusca
  before the add is empty after it, while the storage still holds the Fusca.
\<close>

theorem adicao_apaga_veiculo_carregado:
  "carregarGaragem ambiente_lotado (mundo_texto texto_salvo) = mundo_carregado \<and>
   garagem mundo_carregado = [(''v1700000000000'', fusca_adicionado)] \<and>
   texto_da_garagem ambiente_lotado (garagem mundo_carregado) = texto_salvo \<and>
   novo_id 1700000000000 = ''v1700000000000'' \<and>
   criar_do_formulario (novo_id 1700000000000) form_gol = Inr gol_adicionado \<and>
   salvarGaragem ambiente_lotado
       (mundo_carregado\<lparr>garagem := [(''v1700000000000'', gol_adicionado)]\<rparr>)
     = (False, mundo_carregado\<lparr>garagem := [(''v1700000000000'', gol_adicionado)]\<rparr>) \<and>
   setItem_excecao ambiente_lotado
       (texto_da_garagem ambiente_lotado [(''v1700000000000'', gol_adicionado)])
     = Some QuotaExceededError \<and>
   de_quota QuotaExceededError \<and>
   handleAdicionarVeiculo ambiente_lotado 1700000000000 form_gol mundo_carregado
     = mundo_carregado\<lparr>garagem := []\<rparr> \<and>
   garagem (handleAdicionarVeiculo ambiente_lotado 1700000000000 form_gol mundo_carregado)
     \<noteq> garagem mundo_carregado \<and>
   item (handleAdicionarVeiculo ambiente_lotado 1700000000000 form_gol mundo_carregado)
     = Some texto_salvo \<and>
   JSON_parse ambiente_lotado texto_salvo = Some [(''v1700000000000'', toJSON fusca_adicionado)]"
proof -
  have l: "carregarGaragem ambiente_lotado (mundo_texto texto_salvo) = mundo_carregado"
    by (simp add: carregarGaragem_def mundo_texto_def falso_def ou_def texto_salvo_def
        ambiente_lotado_def carregar_fusca_adicionado mundo_carregado_def)
  have g: "garagem mundo_carregado = [(''v1700000000000'', fusca_adicionado)]"
    "item mundo_carregado = Some texto_salvo"
    by (simp_all add: mundo_carregado_def)
  have t: "trim (add_modelo form_gol) \<noteq> []" "add_tipo form_gol \<noteq> []"
    by (simp_all add: form_gol_def trim_def espaco_def)
  have c: "criar_do_formulario (novo_id 1700000000000) form_gol = Inr gol_adicionado"
    by (simp add: novo_id_exemplo criar_exemplo)
  have q: "setItem_excecao ambiente_lotado
       (texto_da_garagem ambiente_lotado [(''v1700000000000'', gol_adicionado)])
     = Some QuotaExceededError"
    by (simp add: ambiente_lotado_def)
  have s: "salvarGaragem ambiente_lotado
       (mundo_carregado\<lparr>garagem := [(''v1700000000000'', gol_adicionado)]\<rparr>)
     = (False, mundo_carregado\<lparr>garagem := [(''v1700000000000'', gol_adicionado)]\<rparr>)"
    using q by (simp add: salvarGaragem_falha)
  have h: "handleAdicionarVeiculo ambiente_lotado 1700000000000 form_gol mundo_carregado
     = mundo_carregado\<lparr>garagem := []\<rparr>"
    by (subst handleAdicionarVeiculo_falha [where nV = gol_adicionado and e = QuotaExceededError])
      (simp_all add: t criar_exemplo novo_id_exemplo g q)
  have p: "JSON_parse ambiente_lotado texto_salvo
      = Some [(''v1700000000000'', toJSON fusca_adicionado)]"
    by (simp add: ambiente_lotado_def garagem_salva_def)
  have x: "texto_da_garagem ambiente_lotado (garagem mundo_carregado) = texto_salvo"
    by (simp add: texto_da_garagem_def ambiente_lotado_def mundo_carregado_def toJSON_def
        fusca_adicionado_def ou_def texto_salvo_def)
  show ?thesis
    using l g x c s q h p by (simp add: de_quota_def novo_id_exemplo criar_exemplo)
qed

section \<open>Editing a vehicle\<close>

lemma imagemSrc_aplicar_campos: "imagemSrc (fst (aplicar_campos form v)) = imagemSrc v"
  by (simp add: aplicar_campos_def Let_def split: prod.splits if_splits)

lemma campos_aplicar_campos:
  "cor (fst (aplicar_campos form v)) = trim (edit_cor form)"
  "placa (fst (aplicar_campos form v)) = toUpperCase (trim (edit_placa form))"
  "ano (fst (aplicar_campos form v)) = ou_nulo (parseInt_texto (edit_ano form))"
  "dataVencimentoCNH (fst (aplicar_campos form v)) = edit_cnh form"
  "modelo (fst (aplicar_campos form v)) =
     (if trim (edit_modelo form) = [] then modelo v else trim (edit_modelo form))"
  by (auto simp: aplicar_campos_def Let_def split: prod.splits if_splits)

lemma reader_onload_falha:
  assumes "imagemSrc v \<noteq> nova"
    and "setItem_excecao amb
           (texto_da_garagem amb (AList.update k (v\<lparr>imagemSrc := nova\<rparr>) (garagem w))) = Some e"
  shows "garagem (reader_onload amb k v mudou nova w) = AList.update k v (garagem w)"
proof -
  let ?w1 = "w\<lparr>garagem := AList.update k (v\<lparr>imagemSrc := nova\<rparr>) (garagem w)\<rparr>"
  have "salvarGaragem amb ?w1 = (False, ?w1)"
    using assms(2) by (simp add: salvarGaragem_falha)
  then show ?thesis
    using assms(1) by (simp add: reader_onload_def Let_def)
qed

text \<open>
  C6.  The edit form of the displayed vehicle carries an image file whose content differs
  from the current \<open>imagemSrc\<close>, and the save that follows the change of image fails with
  a quota error.  Then the vehicle stored under the key has exactly the \<open>imagemSrc\<close> it had
  before the edit, and the other fields of the form stay applied: colour, plate, year
  and licence date are those of the form, and the model too unless the form left it empty.
  (The callback of the file reader is taken to run on the state the handler left.)
\<close>

theorem imagem_restaurada:
  assumes "map_of (garagem w) k = Some v" and "exibido = Some (id_veiculo v)"
    and "edit_imagem form = Some arq" and "take 6 (tipo_mime arq) = ''image/''"
    and "leitura arq = Some nova" and "nova \<noteq> imagemSrc v"
    and "setItem_excecao amb
           (texto_da_garagem amb
              (AList.update k ((fst (aplicar_campos form v))\<lparr>imagemSrc := nova\<rparr>) (garagem w)))
         = Some e"
    and "de_quota e"
  shows "\<exists>v'. map_of (garagem (handleSalvarEdicaoVeiculo amb exibido (Some form) k w)) k = Some v' \<and>
           imagemSrc v' = imagemSrc v \<and>
           cor v' = trim (edit_cor form) \<and>
           placa v' = toUpperCase (trim (edit_placa form)) \<and>
           ano v' = ou_nulo (parseInt_texto (edit_ano form)) \<and>
           dataVencimentoCNH v' = edit_cnh form \<and>
           modelo v' = (if trim (edit_modelo form) = [] then modelo v else trim (edit_modelo form))"
proof -
  let ?v1 = "fst (aplicar_campos form v)"
  let ?w1 = "w\<lparr>garagem := AList.update k ?v1 (garagem w)\<rparr>"
  have i: "imagemSrc ?v1 \<noteq> nova"
    using assms(6) by (simp add: imagemSrc_aplicar_campos)
  have q: "setItem_excecao amb
      (texto_da_garagem amb (AList.update k (?v1\<lparr>imagemSrc := nova\<rparr>) (garagem ?w1)))
      = Some e"
    using assms(7) by simp
  have "handleSalvarEdicaoVeiculo amb exibido (Some form) k w
      = reader_onload amb k ?v1 (snd (aplicar_campos form v)) nova ?w1"
    using assms(1-5)
    by (simp add: handleSalvarEdicaoVeiculo_def Let_def split: prod.splits)
  then have "garagem (handleSalvarEdicaoVeiculo amb exibido (Some form) k w)
      = AList.update k ?v1 (garagem ?w1)"
    by (simp only: reader_onload_falha [OF i q])
  then have "map_of (garagem (handleSalvarEdicaoVeiculo amb exibido (Some form) k w)) k = Some ?v1"
    by (simp add: AList.update_conv')
  then show ?thesis
    by (simp add: imagemSrc_aplicar_campos campos_aplicar_campos)
qed

theorem imagem_restaurada_witness:
  "map_of (garagem mundo_fusca) ''carro1'' = Some fusca \<and>
   Some ''carro1'' = Some (id_veiculo fusca) \<and>
   edit_imagem form_edicao_fusca = Some foto \<and> take 6 (tipo_mime foto) = ''image/'' \<and>
   leitura foto = Some ''data:image/png;base64,AAAA'' \<and>
   ''data:image/png;base64,AAAA'' \<noteq> imagemSrc fusca \<and>
   setItem_excecao ambiente_cheio
     (texto_da_garagem ambiente_cheio
        (AList.update ''carro1''
           ((fst (aplicar_campos form_edicao_fusca fusca))
              \<lparr>imagemSrc := ''data:image/png;base64,AAAA''\<rparr>) (garagem mundo_fusca)))
     = Some QuotaExceededError \<and>
   de_quota QuotaExceededError \<and>
   map_of (garagem (handleSalvarEdicaoVeiculo ambiente_cheio (Some ''carro1'')
                      (Some form_edicao_fusca) ''carro1'' mundo_fusca)) ''carro1''
     = Some (fusca\<lparr>cor := ''Verde''\<rparr>)"
proof -
  have a: "map_of (garagem mundo_fusca) ''carro1'' = Some fusca"
    "Some ''carro1'' = Some (id_veiculo fusca)"
    "edit_imagem form_edicao_fusca = Some foto" "take 6 (tipo_mime foto) = ''image/''"
    "leitura foto = Some ''data:image/png;base64,AAAA''"
    "''data:image/png;base64,AAAA'' \<noteq> imagemSrc fusca"
    by (simp_all add: mundo_fusca_def fusca_def form_edicao_fusca_def foto_def)
  have q: "setItem_excecao ambiente_cheio
     (texto_da_garagem ambiente_cheio
        (AList.update ''carro1''
           ((fst (aplicar_campos form_edicao_fusca fusca))
              \<lparr>imagemSrc := ''data:image/png;base64,AAAA''\<rparr>) (garagem mundo_fusca)))
     = Some QuotaExceededError"
    by (simp add: ambiente_cheio_def)
  have d: "de_quota QuotaExceededError"
    by (simp add: de_quota_def)
  obtain v' where v': "map_of (garagem (handleSalvarEdicaoVeiculo ambiente_cheio (Some ''carro1'')
                      (Some form_edicao_fusca) ''carro1'' mundo_fusca)) ''carro1'' = Some v'"
    using imagem_restaurada [OF a q d] by blast
  have "handleSalvarEdicaoVeiculo ambiente_cheio (Some ''carro1'')
                      (Some form_edicao_fusca) ''carro1'' mundo_fusca
        = mundo_fusca\<lparr>garagem := [(''carro1'', fusca\<lparr>cor := ''Verde''\<rparr>)]\<rparr>"
    by code_simp
  then show ?thesis
    using a q d v' by (simp add: mundo_fusca_def)
qed

section \<open>The licence alerts\<close>

lemma dias_restantes_teto:
  "(dias_restantes hj dtV - 1) * 86400000 < dtV - hj \<and> dtV - hj \<le> dias_restantes hj dtV * 86400000"
proof -
  define q where "q = (hj - dtV) div 86400000"
  define r where "r = (hj - dtV) mod 86400000"
  have e: "q * 86400000 + r = hj - dtV"
    unfolding q_def r_def by (rule div_mult_mod_eq)
  have r: "0 \<le> r" "r < 86400000"
    unfolding r_def by simp_all
  have "dias_restantes hj dtV = - q"
    by (simp add: dias_restantes_def q_def)
  then show ?thesis
    using e r by (simp add: algebra_simps)
qed

lemma alerta_cnh_de_casos:
  assumes "dataVencimentoCNH v = Some dtV"
  shows "dias_restantes hj dtV < 0 \<Longrightarrow>
           alerta_cnh_de hj v = Some (Vencida (modelo v) (ou (Some (placa v)) ''S/P'') dtV)"
    and "0 \<le> dias_restantes hj dtV \<Longrightarrow> dias_restantes hj dtV \<le> 30 \<Longrightarrow>
           alerta_cnh_de hj v =
             Some (VenceEm (modelo v) (ou (Some (placa v)) ''S/P'') (dias_restantes hj dtV) dtV)"
    and "31 \<le> dias_restantes hj dtV \<Longrightarrow> alerta_cnh_de hj v = None"
  using assms by (simp_all add: alerta_cnh_de_def Let_def)

text \<open>
  Local midnight is the UTC midnight of the local day, moved back by the offset.  So the
  number of days the code computes between today and a licence date \<open>data_utc d\<close> is the
  difference of the calendar days when local time is UTC or behind it, and one more than
  that when local time is ahead of UTC.
\<close>

lemma hoje_meia_noite_dia_local:
  "hoje_meia_noite fuso agora = data_utc (dia_local fuso agora) - fuso"
proof -
  have "(agora + fuso) div 86400000 * 86400000 + (agora + fuso) mod 86400000 = agora + fuso"
    by (rule div_mult_mod_eq)
  then show ?thesis
    unfolding hoje_meia_noite_def data_utc_def dia_local_def by linarith
qed

lemma dias_restantes_data_utc:
  "dias_restantes (hoje_meia_noite fuso agora) (data_utc d)
     = d - dia_local fuso agora - (- fuso) div 86400000"
proof -
  have "hoje_meia_noite fuso agora - data_utc d
      = - fuso + (dia_local fuso agora - d) * 86400000"
    by (simp add: hoje_meia_noite_dia_local data_utc_def algebra_simps)
  then show ?thesis
    by (simp add: dias_restantes_def)
qed

lemma dias_restantes_oeste:
  assumes "- 86400000 < fuso" and "fuso \<le> 0"
  shows "dias_restantes (hoje_meia_noite fuso agora) (data_utc d) = d - dia_local fuso agora"
proof -
  from assms have "(- fuso) div 86400000 = 0" by simp
  then show ?thesis by (simp add: dias_restantes_data_utc)
qed

lemma dias_restantes_leste:
  assumes "0 < fuso" and "fuso \<le> 86400000"
  shows "dias_restantes (hoje_meia_noite fuso agora) (data_utc d) = d - dia_local fuso agora + 1"
proof -
  from assms have "(- fuso) div 86400000 = - 1"
    by (intro int_div_pos_eq [where r = "86400000 - fuso"]) simp_all
  then show ?thesis by (simp add: dias_restantes_data_utc)
qed

text \<open>
  With local time at UTC or behind it the three cases of the claim come out as it says:
  a licence date of yesterday is expired, one 30 days ahead expires in 30 days, and one
  31 days ahead gives no alert.
\<close>

lemma alerta_cnh_oeste:
  assumes "- 86400000 < fuso" and "fuso \<le> 0"
    and "dataVencimentoCNH v = Some (data_utc d)"
  shows "d = dia_local fuso agora - 1 \<Longrightarrow>
           alerta_cnh_de (hoje_meia_noite fuso agora) v
             = Some (Vencida (modelo v) (ou (Some (placa v)) ''S/P'') (data_utc d))"
    and "d = dia_local fuso agora + 30 \<Longrightarrow>
           alerta_cnh_de (hoje_meia_noite fuso agora) v
             = Some (VenceEm (modelo v) (ou (Some (placa v)) ''S/P'') 30 (data_utc d))"
    and "d = dia_local fuso agora + 31 \<Longrightarrow>
           alerta_cnh_de (hoje_meia_noite fuso agora) v = None"
  using assms(3) dias_restantes_oeste [OF assms(1,2), of agora d]
  by (simp_all add: alerta_cnh_de_def Let_def)

text \<open>With local time ahead of UTC each of the first two comes out one day late.\<close>

lemma alerta_cnh_leste:
  assumes "0 < fuso" and "fuso \<le> 86400000"
    and "dataVencimentoCNH v = Some (data_utc d)"
  shows "d = dia_local fuso agora - 1 \<Longrightarrow>
           alerta_cnh_de (hoje_meia_noite fuso agora) v
             = Some (VenceEm (modelo v) (ou (Some (placa v)) ''S/P'') 0 (data_utc d))"
    and "d = dia_local fuso agora + 30 \<Longrightarrow>
           alerta_cnh_de (hoje_meia_noite fuso agora) v = None"
  using assms(3) dias_restantes_leste [OF assms(1,2), of agora d]
  by (simp_all add: alerta_cnh_de_def Let_def)

text \<open>
  C7.  The code does not classify as the claim says where local time is ahead of UTC.
  The licence of the default Fusca expires on 2024-12-31, the day 20088, stored as
  midnight UTC.  In a browser nine hours ahead of UTC, at 10:00 on 2025-01-01 (the day
  20089, so the licence date is today minus one) the scan reports the licence as expiring
  in 0 days instead of expired; and at 10:00 on 2024-12-01 (the day 20058, so the licence
  date is today plus 30) the scan reports nothing.
\<close>

theorem cnh_um_dia_atrasada_a_leste:
  "dataVencimentoCNH fusca = Some (data_utc 20088) \<and>
   garagem mundo_fusca = [(''carro1'', fusca)] \<and>
   dia_local 32400000 1735693200000 = 20088 + 1 \<and>
   hoje_meia_noite 32400000 1735693200000 = 1735657200000 \<and>
   dias_restantes 1735657200000 (data_utc 20088) = 0 \<and>
   verificarVencimentoCNH True 32400000 1735693200000 mundo_fusca
     = Some [VenceEm ''Fusca'' ''ABC1234'' 0 (data_utc 20088)] \<and>
   dia_local 32400000 1733014800000 = 20088 - 30 \<and>
   hoje_meia_noite 32400000 1733014800000 = 1732978800000 \<and>
   dias_restantes 1732978800000 (data_utc 20088) = 31 \<and>
   verificarVencimentoCNH True 32400000 1733014800000 mundo_fusca = Some []"
  by (simp add: verificarVencimentoCNH_def hoje_meia_noite_def dia_local_def data_utc_def
      dias_restantes_def alerta_cnh_de_def mundo_fusca_def fusca_def ou_def Let_def)

end
